theory Spec2Isabelle
  imports Complex_Main
begin

section \<open>The layout engines of Canvas2d (babylon.canvas2dLayoutEngine.ts)\<close>

text \<open>
  Naming. A method or field is written with the source's name; where two classes share
  a name, or the source's name starts with an underscore (which no Isabelle name
  may), the class name is put in front (\<open>CanvasLayoutEngine_doUpdate\<close> is
  \<open>CanvasLayoutEngine._doUpdate\<close>). A private field \<open>_f\<close> is written \<open>f_f\<close>, a private
  static \<open>_s\<close> is written \<open>s_s\<close>.

  Exceptions. A function whose source can throw returns a sum: \<open>Inr\<close> is a normal
  return, \<open>Inl\<close> is an exception that leaves the function and reaches its caller.
  The source has no \<open>try\<close> and no \<open>catch\<close>, so every \<open>Inl\<close> travels to the caller of the
  public method. Both sides carry the state, because what was written before the
  exception stays written.
\<close>

datatype error = TypeError

type_synonym 's result = "(error \<times> 's) + 's"

subsection \<open>LayoutEngineBase\<close>

text \<open>
  \<open>_isLocked\<close> is declared without an initialiser and the constructor does not assign
  it, so it is \<open>undefined\<close> (\<open>None\<close>) in a new instance. \<open>truthy\<close> is the
  test JavaScript's \<open>if\<close> applies to such a value.
\<close>

record LayoutEngineBase =
  layoutDirtyOnPropertyChangedMask :: nat
  f_isLocked :: "bool option"

definition truthy :: "bool option \<Rightarrow> bool" where
  "truthy b = (b = Some True)"

definition LayoutEngineBase_new :: LayoutEngineBase where
  "LayoutEngineBase_new = \<lparr>layoutDirtyOnPropertyChangedMask = 0, f_isLocked = None\<rparr>"

definition isLocked :: "'a LayoutEngineBase_scheme \<Rightarrow> bool option" where
  "isLocked this = f_isLocked this"

definition lock :: "'a LayoutEngineBase_scheme \<Rightarrow> bool \<times> 'a LayoutEngineBase_scheme" where
  "lock this =
     (if truthy (f_isLocked this) then (False, this)
      else (True, this\<lparr>f_isLocked := Some True\<rparr>))"

definition LayoutEngineBase_isChildPositionAllowed :: "'a LayoutEngineBase_scheme \<Rightarrow> bool" where
  "LayoutEngineBase_isChildPositionAllowed this = False"

subsection \<open>StackPanelLayoutEngine: configuration\<close>

record StackPanelLayoutEngine = LayoutEngineBase +
  f_isHorizontal :: bool

text \<open>
  \<open>Prim2DBase.sizeProperty.flagId\<close> is not in the file: the constructor takes it as the
  parameter \<open>sizeProperty_flagId\<close>.
\<close>

definition StackPanelLayoutEngine_new :: "nat \<Rightarrow> StackPanelLayoutEngine" where
  "StackPanelLayoutEngine_new sizeProperty_flagId =
     \<lparr>layoutDirtyOnPropertyChangedMask = sizeProperty_flagId, f_isLocked = None,
      f_isHorizontal = True\<rparr>"

definition isHorizontal :: "StackPanelLayoutEngine \<Rightarrow> bool" where
  "isHorizontal this = f_isHorizontal this"

definition set_isHorizontal :: "StackPanelLayoutEngine \<Rightarrow> bool \<Rightarrow> StackPanelLayoutEngine" where
  "set_isHorizontal this val =
     (if truthy (isLocked this) then this else this\<lparr>f_isHorizontal := val\<rparr>)"

subsection \<open>The static accessors Horizontal and Vertical\<close>

text \<open>
  Instances have identity: the accessors hand out references. The instances of
  \<open>StackPanelLayoutEngine\<close> live in a heap (a list, a reference is an index, \<open>new\<close>
  appends), and the two private statics hold a reference or \<open>null\<close> (\<open>None\<close>).
\<close>

record StackPanelLayoutEngine_statics =
  instances :: "StackPanelLayoutEngine list"
  s_horizontal :: "nat option"
  s_vertical :: "nat option"

definition statics_initial :: "StackPanelLayoutEngine list \<Rightarrow> StackPanelLayoutEngine_statics" where
  "statics_initial heap = \<lparr>instances = heap, s_horizontal = None, s_vertical = None\<rparr>"

definition instance_update ::
  "nat \<Rightarrow> (StackPanelLayoutEngine \<Rightarrow> StackPanelLayoutEngine) \<Rightarrow>
   StackPanelLayoutEngine_statics \<Rightarrow> StackPanelLayoutEngine_statics" where
  "instance_update r f w = w\<lparr>instances := (instances w)[r := f (instances w ! r)]\<rparr>"

definition Horizontal ::
  "nat \<Rightarrow> StackPanelLayoutEngine_statics \<Rightarrow> nat \<times> StackPanelLayoutEngine_statics" where
  "Horizontal sizeProperty_flagId w =
     (case s_horizontal w of
        Some r \<Rightarrow> (r, w)
      | None \<Rightarrow>
          (let r = length (instances w);
               w1 = w\<lparr>instances := instances w @ [StackPanelLayoutEngine_new sizeProperty_flagId],
                      s_horizontal := Some r\<rparr>;
               w2 = instance_update r (\<lambda>e. set_isHorizontal e True) w1;
               w3 = instance_update r (\<lambda>e. snd (lock e)) w2
           in (r, w3)))"

definition Vertical ::
  "nat \<Rightarrow> StackPanelLayoutEngine_statics \<Rightarrow> nat \<times> StackPanelLayoutEngine_statics" where
  "Vertical sizeProperty_flagId w =
     (case s_vertical w of
        Some r \<Rightarrow> (r, w)
      | None \<Rightarrow>
          (let r = length (instances w);
               w1 = w\<lparr>instances := instances w @ [StackPanelLayoutEngine_new sizeProperty_flagId],
                      s_vertical := Some r\<rparr>;
               w2 = instance_update r (\<lambda>e. set_isHorizontal e False) w1;
               w3 = instance_update r (\<lambda>e. snd (lock e)) w2
           in (r, w3)))"

subsection \<open>The primitives the engines work on\<close>

text \<open>
  Modelled from the spec: \<open>Prim2DBase\<close>, \<open>Canvas2D\<close>, \<open>Size\<close>, \<open>Vector2\<close>,
  \<open>PrimitiveThickness.computeArea\<close>, \<open>SmartPropertyPrim._isFlagSet\<close>, \<open>_clearFlags\<close> and
  \<open>getExternalData\<close> are not in the file. A primitive is a record of the properties the
  engines read and write (the spec's LayoutNode); the primitives live in a store, a
  reference is a natural number, and \<open>parent\<close>, \<open>owner\<close> and \<open>children\<close> hold references.
  \<^item> \<open>isCanvas2D\<close> is the answer to \<open>instanceof Canvas2D\<close>.
  \<^item> \<open>layoutDirty\<close> is the bit \<open>SmartPropertyPrim.flagLayoutDirty\<close>: \<open>_isFlagSet\<close> reads it,
    \<open>_clearFlags\<close> sets it to false.
  \<^item> \<open>margin\<close> stands for the primitive's \<open>PrimitiveThickness\<close>: the function
    \<open>computeArea\<close> applies to the source area and the result object, giving the new
    contents of the result object. The stack panel passes the primitive's own
    \<open>layoutArea\<close> object as the result, so the call rewrites \<open>layoutArea\<close> in place.
  \<^item> \<open>externalData\<close> is the store \<open>getExternalData\<close> reads; a key that is absent gives
    \<open>null\<close> (\<open>None\<close>).
  \<^item> A \<open>Size\<close> and a \<open>Vector2\<close> are values. The getters and setters of \<open>Prim2DBase\<close> are
    not in the file, so the model cannot tell whether two properties may hold one and
    the same \<open>Size\<close> object; it takes every primitive's \<open>layoutArea\<close> to be an object of its
    own, which no other property of any primitive shares. What is proved of the stack
    panel, which writes into that object, is proved under this assumption.
  \<^item> Their numbers are real numbers, standing for JavaScript's finite numbers. The one
    sum the engines compute on them is the stack panel's cursor (\<open>x += layoutArea.width\<close>);
    JavaScript rounds it to a double, so the model takes the addition as a parameter
    \<open>add\<close> of the stack panel's method, and what is proved holds for every \<open>add\<close>.
    \<open>Math.max\<close> returns one of its arguments and needs no rounding.
\<close>

record Size =
  width :: real
  height :: real

record Vector2 =
  x :: real
  y :: real

record PrimitiveGridInfo =
  row :: int
  column :: int
  rowSpan :: int
  columnSpan :: int

definition PrimitiveGridInfo_new :: "int \<Rightarrow> int \<Rightarrow> int option \<Rightarrow> int option \<Rightarrow> PrimitiveGridInfo" where
  "PrimitiveGridInfo_new r c rs cs =
     \<lparr>row = r, column = c,
      rowSpan = (case rs of None \<Rightarrow> 1 | Some n \<Rightarrow> n),
      columnSpan = (case cs of None \<Rightarrow> 1 | Some n \<Rightarrow> n)\<rparr>"

type_synonym ref = nat

type_synonym PrimitiveThickness = "Size \<Rightarrow> Size \<Rightarrow> Size"

record Prim2DBase =
  isCanvas2D :: bool
  parent :: "ref option"
  owner :: "ref option"
  children :: "ref list"
  actualSize :: Size
  contentArea :: Size
  layoutArea :: Size
  layoutAreaPos :: Vector2
  margin :: PrimitiveThickness
  layoutDirty :: bool
  externalData :: "string \<Rightarrow> PrimitiveGridInfo option"

type_synonym store = "ref \<Rightarrow> Prim2DBase"

definition computeArea :: "PrimitiveThickness \<Rightarrow> Size \<Rightarrow> Size \<Rightarrow> Size" where
  "computeArea m sourceArea res = m sourceArea res"

definition getExternalData :: "Prim2DBase \<Rightarrow> string \<Rightarrow> PrimitiveGridInfo option" where
  "getExternalData prim key = externalData prim key"

definition clearLayoutDirty :: "store \<Rightarrow> ref \<Rightarrow> store" where
  "clearLayoutDirty st prim = st(prim := (st prim)\<lparr>layoutDirty := False\<rparr>)"

subsection \<open>LayoutEngineBase.updateLayout\<close>

text \<open>The body of the base class's method is empty.\<close>

definition LayoutEngineBase_updateLayout :: "'a LayoutEngineBase_scheme \<Rightarrow> store \<Rightarrow> ref \<Rightarrow> store" where
  "LayoutEngineBase_updateLayout this st prim = st"

subsection \<open>CanvasLayoutEngine\<close>

text \<open>
  \<open>prim.parent instanceof Canvas2D\<close> is false for a \<open>null\<close> parent, and the last branch
  then reads \<open>prim.parent.contentArea\<close>: a TypeError. So is \<open>prim.owner.actualSize\<close> for a
  \<open>null\<close> owner.
\<close>

definition CanvasLayoutEngine_doUpdate :: "store \<Rightarrow> ref \<Rightarrow> store result" where
  "CanvasLayoutEngine_doUpdate st prim =
     (if isCanvas2D (st prim) then
        Inr (st(prim := (st prim)\<lparr>layoutArea := actualSize (st prim)\<rparr>))
      else
        (case parent (st prim) of
           None \<Rightarrow> Inl (TypeError, st)
         | Some q \<Rightarrow>
             if isCanvas2D (st q) then
               (case owner (st prim) of
                  None \<Rightarrow> Inl (TypeError, st)
                | Some c \<Rightarrow> Inr (st(prim := (st prim)\<lparr>layoutArea := actualSize (st c)\<rparr>)))
             else Inr (st(prim := (st prim)\<lparr>layoutArea := contentArea (st q)\<rparr>))))"

fun CanvasLayoutEngine_forChildren :: "store \<Rightarrow> ref list \<Rightarrow> store result" where
  "CanvasLayoutEngine_forChildren st [] = Inr st"
| "CanvasLayoutEngine_forChildren st (child # rest) =
     (case CanvasLayoutEngine_doUpdate st child of
        Inl e \<Rightarrow> Inl e
      | Inr st' \<Rightarrow> CanvasLayoutEngine_forChildren st' rest)"

definition CanvasLayoutEngine_updateLayout :: "store \<Rightarrow> ref \<Rightarrow> store result" where
  "CanvasLayoutEngine_updateLayout st prim =
     (if layoutDirty (st prim) then
        (case CanvasLayoutEngine_forChildren st (children (st prim)) of
           Inl e \<Rightarrow> Inl e
         | Inr st' \<Rightarrow> Inr (clearLayoutDirty st' prim))
      else Inr st)"

definition CanvasLayoutEngine_isChildPositionAllowed :: "'a LayoutEngineBase_scheme \<Rightarrow> bool" where
  "CanvasLayoutEngine_isChildPositionAllowed this = True"

subsection \<open>StackPanelLayoutEngine.updateLayout\<close>

text \<open>
  The first loop (\<open>measure\<close>) rewrites each child's \<open>layoutArea\<close> through \<open>computeArea\<close>
  and tracks the maximum, which starts at 0. The second loop (\<open>place\<close>) writes the
  positions and the common cross extent; \<open>add\<close> is JavaScript's \<open>+\<close> on numbers. Nothing
  in the method can throw.
\<close>

fun StackPanelLayoutEngine_measure :: "bool \<Rightarrow> store \<Rightarrow> real \<Rightarrow> ref list \<Rightarrow> store \<times> real" where
  "StackPanelLayoutEngine_measure h st mx [] = (st, mx)"
| "StackPanelLayoutEngine_measure h st mx (child # rest) =
     (let area = computeArea (margin (st child)) (actualSize (st child)) (layoutArea (st child));
          st' = st(child := (st child)\<lparr>layoutArea := area\<rparr>)
      in StackPanelLayoutEngine_measure h st' (max mx (if h then height area else width area)) rest)"

fun StackPanelLayoutEngine_place ::
  "(real \<Rightarrow> real \<Rightarrow> real) \<Rightarrow> bool \<Rightarrow> real \<Rightarrow> store \<Rightarrow> real \<Rightarrow> real \<Rightarrow> ref list \<Rightarrow> store" where
  "StackPanelLayoutEngine_place add h mx st cx cy [] = st"
| "StackPanelLayoutEngine_place add h mx st cx cy (child # rest) =
     (let st1 = st(child := (st child)\<lparr>layoutAreaPos := \<lparr>x = cx, y = cy\<rparr>\<rparr>);
          area = layoutArea (st1 child)
      in if h then
           StackPanelLayoutEngine_place add h mx
             (st1(child := (st1 child)\<lparr>layoutArea := \<lparr>width = width area, height = mx\<rparr>\<rparr>))
             (add cx (width area)) cy rest
         else
           StackPanelLayoutEngine_place add h mx
             (st1(child := (st1 child)\<lparr>layoutArea := \<lparr>width = mx, height = height area\<rparr>\<rparr>))
             cx (add cy (height area)) rest)"

definition StackPanelLayoutEngine_updateLayout ::
  "(real \<Rightarrow> real \<Rightarrow> real) \<Rightarrow> StackPanelLayoutEngine \<Rightarrow> store \<Rightarrow> ref \<Rightarrow> store" where
  "StackPanelLayoutEngine_updateLayout add this st prim =
     (if layoutDirty (st prim) then
        (let h = isHorizontal this;
             (st1, mx) = StackPanelLayoutEngine_measure h st 0 (children (st prim));
             st2 = StackPanelLayoutEngine_place add h mx st1 0 0 (children (st prim))
         in clearLayoutDirty st2 prim)
      else st)"

definition StackPanelLayoutEngine_isChildPositionAllowed :: "StackPanelLayoutEngine \<Rightarrow> bool" where
  "StackPanelLayoutEngine_isChildPositionAllowed this = False"

subsection \<open>JavaScript's strings and numbers, as far as the grid's parser uses them\<close>

text \<open>
  A string is a list of code units below 256 (\<open>code\<close> gives the unit's number), so the
  model covers the strings of U+0000 to U+00FF. \<open>toLocaleLowerCase\<close> is the lower-casing of
  a locale without special rules: A to Z and the capital letters of U+00C0 to U+00DE
  (U+00D7, the multiplication sign, apart) move up by 32. \<open>trim\<close> removes JavaScript's
  white space and line terminators at both ends; below 256 these are the units 9 to 13,
  32 and 160.

  A \<open>number\<close> is \<open>NaN\<close>, an infinity or a finite value, the finite values being real
  numbers (no rounding to a double). \<open>parseFloat\<close> follows ECMAScript: it skips leading
  white space and reads the longest prefix that is a \<open>StrDecimalLiteral\<close> (a sign,
  then \<open>Infinity\<close> or digits with an optional fraction and exponent); without such a
  prefix the result is \<open>NaN\<close>.
\<close>

datatype number = NaN | PosInfinity | NegInfinity | Num real

definition code :: "char \<Rightarrow> nat" where
  "code c = of_char c"

definition isUpper :: "char \<Rightarrow> bool" where
  "isUpper c =
     ((65 \<le> code c \<and> code c \<le> 90) \<or> (192 \<le> code c \<and> code c \<le> 222 \<and> code c \<noteq> 215))"

definition toLowerChar :: "char \<Rightarrow> char" where
  "toLowerChar c = (if isUpper c then char_of (code c + 32) else c)"

definition toLocaleLowerCase :: "string \<Rightarrow> string" where
  "toLocaleLowerCase s = map toLowerChar s"

definition isWhiteSpace :: "char \<Rightarrow> bool" where
  "isWhiteSpace c = (code c \<in> {9, 10, 11, 12, 13, 32, 160})"

definition trimStart :: "string \<Rightarrow> string" where
  "trimStart s = dropWhile isWhiteSpace s"

definition trimEnd :: "string \<Rightarrow> string" where
  "trimEnd s = rev (dropWhile isWhiteSpace (rev s))"

definition trim :: "string \<Rightarrow> string" where
  "trim s = trimEnd (trimStart s)"

definition startsWith :: "string \<Rightarrow> string \<Rightarrow> bool" where
  "startsWith s pat = (take (length pat) s = pat)"

fun indexOfFrom :: "string \<Rightarrow> string \<Rightarrow> nat \<Rightarrow> int" where
  "indexOfFrom [] pat i = (if pat = [] then int i else - 1)"
| "indexOfFrom (c # t) pat i =
     (if startsWith (c # t) pat then int i else indexOfFrom t pat (Suc i))"

definition indexOf :: "string \<Rightarrow> string \<Rightarrow> int" where
  "indexOf s pat = indexOfFrom s pat 0"

definition substr :: "string \<Rightarrow> nat \<Rightarrow> nat \<Rightarrow> string" where
  "substr s start len = take len (drop start s)"

definition isDigit :: "char \<Rightarrow> bool" where
  "isDigit c = (48 \<le> code c \<and> code c \<le> 57)"

definition digitsValue :: "string \<Rightarrow> nat" where
  "digitsValue ds = foldl (\<lambda>a c. 10 * a + (code c - 48)) 0 ds"

definition signPrefix :: "string \<Rightarrow> bool \<times> string" where
  "signPrefix s =
     (case s of
        [] \<Rightarrow> (False, s)
      | c # t \<Rightarrow>
          if c = CHR ''-'' then (True, t) else if c = CHR ''+'' then (False, t) else (False, s))"

definition signedInteger :: "string \<Rightarrow> int option" where
  "signedInteger s =
     (let (neg, r) = signPrefix s; ds = takeWhile isDigit r
      in if ds = [] then None
         else Some (if neg then - int (digitsValue ds) else int (digitsValue ds)))"

definition exponentPart :: "string \<Rightarrow> int" where
  "exponentPart s =
     (case s of
        [] \<Rightarrow> 0
      | c # t \<Rightarrow>
          if c = CHR ''e'' \<or> c = CHR ''E''
          then (case signedInteger t of None \<Rightarrow> 0 | Some n \<Rightarrow> n)
          else 0)"

definition scale10 :: "real \<Rightarrow> int \<Rightarrow> real" where
  "scale10 m e = (if 0 \<le> e then m * 10 ^ nat e else m / 10 ^ nat (- e))"

definition unsignedDecimal :: "string \<Rightarrow> real option" where
  "unsignedDecimal s =
     (let ip = takeWhile isDigit s; r1 = dropWhile isDigit s;
          (fp, r2) = (case r1 of
                        [] \<Rightarrow> ([], r1)
                      | c # t \<Rightarrow>
                          if c = CHR ''.'' then (takeWhile isDigit t, dropWhile isDigit t)
                          else ([], r1))
      in if ip = [] \<and> fp = [] then None
         else Some (scale10 (real (digitsValue (ip @ fp)) / 10 ^ length fp) (exponentPart r2)))"

definition parseFloat :: "string \<Rightarrow> number" where
  "parseFloat s =
     (let (neg, u) = signPrefix (trimStart s)
      in if startsWith u ''Infinity'' then (if neg then NegInfinity else PosInfinity)
         else (case unsignedDecimal u of
                 None \<Rightarrow> NaN
               | Some m \<Rightarrow> Num (if neg then - m else m)))"

text \<open>\<open>a + b\<close> on numbers, and the number \<open>null\<close> stands for in a sum (0).\<close>

fun number_add :: "number \<Rightarrow> number \<Rightarrow> number" where
  "number_add NaN b = NaN"
| "number_add a NaN = NaN"
| "number_add PosInfinity NegInfinity = NaN"
| "number_add NegInfinity PosInfinity = NaN"
| "number_add PosInfinity b = PosInfinity"
| "number_add a PosInfinity = PosInfinity"
| "number_add NegInfinity b = NegInfinity"
| "number_add a NegInfinity = NegInfinity"
| "number_add (Num a) (Num b) = Num (a + b)"

definition toNumber :: "number option \<Rightarrow> number" where
  "toNumber v = (case v of None \<Rightarrow> Num 0 | Some n \<Rightarrow> n)"

subsection \<open>GridDimensionDefinition\<close>

definition Pixels :: nat where "Pixels = 1"
definition Stars :: nat where "Stars = 2"
definition Auto :: nat where "Auto = 3"

text \<open>
  \<open>_parse\<close> hands its three results (the value, the value in pixels, the type) to the
  callback \<open>res\<close>; \<open>null\<close> is \<open>None\<close>.
\<close>

definition GridDimensionDefinition_parse ::
  "string \<Rightarrow> (number option \<Rightarrow> number option \<Rightarrow> nat \<Rightarrow> 'a) \<Rightarrow> 'a" where
  "GridDimensionDefinition_parse val res =
     (let v = trim (toLocaleLowerCase val) in
      if indexOf v ''auto'' = 0 then res None None Auto
      else if indexOf v ''*'' \<noteq> - 1 then
        (let i = indexOf v ''*'';
             w = parseFloat (substr v 0 (nat i))
         in res (Some w) None Stars)
      else
        (let w = parseFloat v in res (Some w) (Some w) Pixels))"

text \<open>
  The fields of a row are called \<open>width\<close>, \<open>widthPixels\<close> and \<open>widthType\<close> in the source and
  those of a column \<open>height\<close>, \<open>heightPixels\<close> and \<open>heightType\<close>; here they carry the prefix
  \<open>row_\<close> or \<open>col_\<close>, since \<open>width\<close> and \<open>height\<close> are the fields of \<open>Size\<close>.
\<close>

record RowDefinition =
  row_width :: "number option"
  row_widthPixels :: "number option"
  row_widthType :: nat

record ColumnDefinition =
  col_height :: "number option"
  col_heightPixels :: "number option"
  col_heightType :: nat

datatype CellInfo = CellInfo

subsection \<open>GridPanelLayoutEngine\<close>

text \<open>
  The settings give each row by its \<open>height\<close> string and each column by its \<open>width\<close>
  string; \<open>rows\<close> or \<open>columns\<close> may be absent (\<open>None\<close>).
\<close>

record GridSettings =
  rows :: "string list option"
  columns :: "string list option"

record GridPanelLayoutEngine = LayoutEngineBase +
  f_rows :: "RowDefinition list"
  f_columns :: "ColumnDefinition list"
  f_cells :: "CellInfo list list option"

definition GridPanelLayoutEngine_new :: "nat \<Rightarrow> GridSettings \<Rightarrow> GridPanelLayoutEngine" where
  "GridPanelLayoutEngine_new sizeProperty_flagId settings =
     \<lparr>layoutDirtyOnPropertyChangedMask = sizeProperty_flagId, f_isLocked = None,
      f_rows = (case rows settings of
                  None \<Rightarrow> []
                | Some rs \<Rightarrow>
                    map (\<lambda>height. GridDimensionDefinition_parse height
                           (\<lambda>v vp t. \<lparr>row_width = v, row_widthPixels = vp, row_widthType = t\<rparr>)) rs),
      f_columns = (case columns settings of
                     None \<Rightarrow> []
                   | Some cs \<Rightarrow>
                       map (\<lambda>width. GridDimensionDefinition_parse width
                              (\<lambda>v vp t. \<lparr>col_height = v, col_heightPixels = vp, col_heightType = t\<rparr>)) cs),
      f_cells = None\<rparr>"

text \<open>
  Reading an array at an index: \<open>undefined\<close> (\<open>None\<close>) unless the index is one of the
  array's. Reading a property of \<open>undefined\<close> or \<open>null\<close> is a TypeError.
\<close>

definition array_get :: "'a list \<Rightarrow> int \<Rightarrow> 'a option" where
  "array_get xs i = (if 0 \<le> i \<and> i < int (length xs) then Some (xs ! nat i) else None)"

fun GridPanelLayoutEngine_forChildren :: "CellInfo list list \<Rightarrow> store \<Rightarrow> ref list \<Rightarrow> error option" where
  "GridPanelLayoutEngine_forChildren cells st [] = None"
| "GridPanelLayoutEngine_forChildren cells st (child # rest) =
     (case getExternalData (st child) ''grid'' of
        None \<Rightarrow> Some TypeError
      | Some pgi \<Rightarrow>
          (case array_get cells (row pgi) of
             None \<Rightarrow> Some TypeError
           | Some cellRow \<Rightarrow>
               (let cell = array_get cellRow (column pgi)
                in GridPanelLayoutEngine_forChildren cells st rest)))"

definition GridPanelLayoutEngine_updateCellsList ::
  "GridPanelLayoutEngine \<Rightarrow> store \<Rightarrow> ref \<Rightarrow> GridPanelLayoutEngine result" where
  "GridPanelLayoutEngine_updateCellsList this st prim =
     (case f_cells this of
        Some cells \<Rightarrow> Inr this
      | None \<Rightarrow>
          (let rl = length (f_rows this);
               cl = length (f_columns this);
               cells = map (\<lambda>i. map (\<lambda>j. CellInfo) [0..<cl]) [0..<rl];
               this' = this\<lparr>f_cells := Some cells\<rparr>
           in case GridPanelLayoutEngine_forChildren cells st (children (st prim)) of
                Some e \<Rightarrow> Inl (e, this')
              | None \<Rightarrow> Inr this'))"

text \<open>
  \<open>_updateConstants\<close> reads the content area and sums two totals over the rows; it
  writes nothing and returns nothing. The model returns the totals the loop ends with.
\<close>

fun GridPanelLayoutEngine_totals :: "number \<Rightarrow> number \<Rightarrow> RowDefinition list \<Rightarrow> number \<times> number" where
  "GridPanelLayoutEngine_totals totalStars totalPixels [] = (totalStars, totalPixels)"
| "GridPanelLayoutEngine_totals totalStars totalPixels (r # rest) =
     (if row_widthType r = Stars then
        GridPanelLayoutEngine_totals (number_add totalStars (toNumber (row_width r))) totalPixels rest
      else if row_widthType r = Pixels then
        GridPanelLayoutEngine_totals totalStars (number_add totalPixels (toNumber (row_widthPixels r))) rest
      else if row_widthType r = Auto then
        GridPanelLayoutEngine_totals totalStars (number_add totalPixels (toNumber (row_widthPixels r))) rest
      else GridPanelLayoutEngine_totals totalStars totalPixels rest)"

definition GridPanelLayoutEngine_updateConstants ::
  "GridPanelLayoutEngine \<Rightarrow> store \<Rightarrow> ref \<Rightarrow> number \<times> number" where
  "GridPanelLayoutEngine_updateConstants this st prim =
     (let area = contentArea (st prim)
      in GridPanelLayoutEngine_totals (Num 0) (Num 0) (f_rows this))"

definition GridPanelLayoutEngine_updateLayout ::
  "GridPanelLayoutEngine \<Rightarrow> store \<Rightarrow> ref \<Rightarrow> (GridPanelLayoutEngine \<times> store) result" where
  "GridPanelLayoutEngine_updateLayout this st prim =
     (if layoutDirty (st prim) then
        (case GridPanelLayoutEngine_updateCellsList this st prim of
           Inl (e, this') \<Rightarrow> Inl (e, (this', st))
         | Inr this' \<Rightarrow>
             (case GridPanelLayoutEngine_updateConstants this' st prim of
                (totalStars, totalPixels) \<Rightarrow> Inr (this', clearLayoutDirty st prim)))
      else Inr (this, st))"

definition GridPanelLayoutEngine_isChildPositionAllowed :: "GridPanelLayoutEngine \<Rightarrow> bool" where
  "GridPanelLayoutEngine_isChildPositionAllowed this = False"

subsection \<open>Reading a result\<close>

definition thrown :: "'s result \<Rightarrow> error option" where
  "thrown r = (case r of Inl (e, s) \<Rightarrow> Some e | Inr s \<Rightarrow> None)"

definition state_of :: "'s result \<Rightarrow> 's" where
  "state_of r = (case r of Inl (e, s) \<Rightarrow> s | Inr s \<Rightarrow> s)"

subsection \<open>Notions the properties are stated with\<close>

text \<open>The area \<open>computeArea\<close> gives a child in the stack panel's first loop.\<close>

definition marginArea :: "store \<Rightarrow> ref \<Rightarrow> Size" where
  "marginArea st child =
     computeArea (margin (st child)) (actualSize (st child)) (layoutArea (st child))"

text \<open>The extent the stack panel takes the maximum of.\<close>

definition crossExtent :: "bool \<Rightarrow> Size \<Rightarrow> real" where
  "crossExtent h a = (if h then height a else width a)"

text \<open>
  What the accessors keep true of the statics: a static that is set refers to an
  instance of the heap that is locked and has the accessor's orientation.
\<close>

definition statics_ok :: "StackPanelLayoutEngine_statics \<Rightarrow> bool" where
  "statics_ok w =
     ((case s_horizontal w of
         None \<Rightarrow> True
       | Some r \<Rightarrow> r < length (instances w) \<and> isLocked (instances w ! r) = Some True
                    \<and> isHorizontal (instances w ! r))
      \<and> (case s_vertical w of
            None \<Rightarrow> True
          | Some r \<Rightarrow> r < length (instances w) \<and> isLocked (instances w ! r) = Some True
                       \<and> \<not> isHorizontal (instances w ! r)))"

text \<open>
  The cell of a child as the specification describes it, for a grid whose rows and
  columns are given in pixels: the cell is as wide as its column and as high as its
  row, and it starts after the columns and rows before it. (A row's extent is the
  field the source calls \<open>widthPixels\<close>, a column's the field it calls \<open>heightPixels\<close>.)
\<close>

definition pixelsOf :: "number option \<Rightarrow> real" where
  "pixelsOf v = (case v of Some (Num r) \<Rightarrow> r | _ \<Rightarrow> 0)"

definition claimed_cell_area :: "GridPanelLayoutEngine \<Rightarrow> PrimitiveGridInfo \<Rightarrow> Size" where
  "claimed_cell_area g pgi =
     \<lparr>width = pixelsOf (col_heightPixels (f_columns g ! nat (column pgi))),
      height = pixelsOf (row_widthPixels (f_rows g ! nat (row pgi)))\<rparr>"

definition claimed_cell_pos :: "GridPanelLayoutEngine \<Rightarrow> PrimitiveGridInfo \<Rightarrow> Vector2" where
  "claimed_cell_pos g pgi =
     \<lparr>x = sum_list (map (\<lambda>c. pixelsOf (col_heightPixels c)) (take (nat (column pgi)) (f_columns g))),
      y = sum_list (map (\<lambda>r. pixelsOf (row_widthPixels r)) (take (nat (row pgi)) (f_rows g)))\<rparr>"

text \<open>
  A child the grid's cell loop passes: it has a \<open>"grid"\<close> entry whose row is a row of
  the table.
\<close>

definition placed :: "GridPanelLayoutEngine \<Rightarrow> Prim2DBase \<Rightarrow> bool" where
  "placed g child =
     (case getExternalData child ''grid'' of
        None \<Rightarrow> False
      | Some pgi \<Rightarrow> 0 \<le> row pgi \<and> row pgi < int (length (f_rows g)))"

subsection \<open>A scene\<close>

text \<open>
  A canvas (0) with one child (2) that has two children (3 and 4) of sizes 50 by 20
  and 30 by 40, placed in the cells (0, 0) and (1, 1) of a grid. The margins are
  empty: \<open>computeArea\<close> gives the source area. The canvas and its child are dirty.
\<close>

definition example_prim :: Prim2DBase where
  "example_prim =
     \<lparr>isCanvas2D = False, parent = None, owner = None, children = [],
      actualSize = \<lparr>width = 0, height = 0\<rparr>,
      contentArea = \<lparr>width = 0, height = 0\<rparr>,
      layoutArea = \<lparr>width = 7, height = 9\<rparr>,
      layoutAreaPos = \<lparr>x = 3, y = 4\<rparr>,
      margin = (\<lambda>sourceArea res. sourceArea),
      layoutDirty = False,
      externalData = (\<lambda>key. None)\<rparr>"

definition example_scene :: store where
  "example_scene =
     (\<lambda>r. example_prim)
       (0 := example_prim\<lparr>isCanvas2D := True, owner := Some 0, children := [2],
               actualSize := \<lparr>width = 200, height = 100\<rparr>,
               contentArea := \<lparr>width = 200, height = 100\<rparr>, layoutDirty := True\<rparr>,
        2 := example_prim\<lparr>parent := Some 0, owner := Some 0, children := [3, 4],
               actualSize := \<lparr>width = 80, height = 40\<rparr>,
               contentArea := \<lparr>width = 76, height = 36\<rparr>, layoutDirty := True\<rparr>,
        3 := example_prim\<lparr>parent := Some 2, owner := Some 0,
               actualSize := \<lparr>width = 50, height = 20\<rparr>,
               externalData := [''grid'' \<mapsto> PrimitiveGridInfo_new 0 0 None None]\<rparr>,
        4 := example_prim\<lparr>parent := Some 2, owner := Some 0,
               actualSize := \<lparr>width = 30, height = 40\<rparr>,
               externalData := [''grid'' \<mapsto> PrimitiveGridInfo_new 1 1 None None]\<rparr>)"

text \<open>The same scene with no \<open>"grid"\<close> entry on the last child.\<close>

definition example_scene_no_grid :: store where
  "example_scene_no_grid = example_scene(4 := (example_scene 4)\<lparr>externalData := (\<lambda>key. None)\<rparr>)"

text \<open>The same scene with the two last children 20 and 40 below zero in height.\<close>

definition example_scene_negative :: store where
  "example_scene_negative =
     example_scene
       (3 := (example_scene 3)\<lparr>actualSize := \<lparr>width = 50, height = - 20\<rparr>\<rparr>,
        4 := (example_scene 4)\<lparr>actualSize := \<lparr>width = 30, height = - 40\<rparr>\<rparr>)"

definition example_grid :: GridPanelLayoutEngine where
  "example_grid =
     GridPanelLayoutEngine_new 4 \<lparr>rows = Some [''100'', ''40''], columns = Some [''50'', ''60'']\<rparr>"

definition example_horizontal :: StackPanelLayoutEngine where
  "example_horizontal = snd (lock (set_isHorizontal (StackPanelLayoutEngine_new 4) True))"

section \<open>Properties\<close>

subsection \<open>Locking\<close>

lemma lock_snd: "snd (lock e) = e\<lparr>f_isLocked := Some True\<rparr>"
  by (simp add: lock_def truthy_def)

lemma lock_again: "lock (snd (lock e)) = (False, snd (lock e))"
  by (simp add: lock_def truthy_def)

lemma lock_iterate: "((\<lambda>s. snd (lock s)) ^^ n) (snd (lock e)) = snd (lock e)"
  by (induction n) (simp_all add: lock_again)

text \<open>
  C4. On an instance that is not locked (a new instance is not), \<open>lock\<close> returns true
  and the instance is locked afterwards; on a locked instance it returns false and
  changes nothing. \<open>lock\<close> writes \<open>_isLocked\<close> only, and after a first call any number
  of further calls return false and leave the instance as the first call left it.
  \<open>isLocked\<close> is not true on a new instance (it is \<open>undefined\<close> there) and true after.
\<close>

theorem lock_one_way:
  fixes e :: "'a LayoutEngineBase_scheme"
  shows "(\<not> truthy (isLocked e) \<longrightarrow>
            fst (lock e) = True \<and> isLocked (snd (lock e)) = Some True)
       \<and> (truthy (isLocked e) \<longrightarrow> lock e = (False, e))
       \<and> snd (lock e) = e\<lparr>f_isLocked := Some True\<rparr>
       \<and> lock (((\<lambda>s. snd (lock s)) ^^ n) (snd (lock e))) = (False, snd (lock e))
       \<and> isLocked LayoutEngineBase_new = None
       \<and> \<not> truthy (isLocked LayoutEngineBase_new)"
proof -
  have "lock (((\<lambda>s. snd (lock s)) ^^ n) (snd (lock e))) = (False, snd (lock e))"
    by (simp only: lock_iterate lock_again)
  moreover have "snd (lock e) = e\<lparr>f_isLocked := Some True\<rparr>"
    by (rule lock_snd)
  ultimately show ?thesis
    by (simp add: lock_def truthy_def isLocked_def LayoutEngineBase_new_def)
qed

theorem lock_one_way_witness:
  "lock LayoutEngineBase_new = (True, LayoutEngineBase_new\<lparr>f_isLocked := Some True\<rparr>)
   \<and> isLocked (snd (lock LayoutEngineBase_new)) = Some True
   \<and> lock (snd (lock LayoutEngineBase_new)) = (False, snd (lock LayoutEngineBase_new))
   \<and> lock (snd (lock (snd (lock LayoutEngineBase_new)))) = (False, snd (lock LayoutEngineBase_new))"
  using lock_one_way [of LayoutEngineBase_new 0] lock_one_way [of LayoutEngineBase_new 1]
  by (simp add: prod_eq_iff)

text \<open>
  C5. On a locked stack panel the setter of \<open>isHorizontal\<close> returns with the instance
  as it was; on one that is not locked it stores the value and changes nothing else.
  The setter is a total function with no exception among its results: the source's
  setter has no statement that can throw. In particular the setter does nothing after
  \<open>lock\<close>.
\<close>

theorem set_isHorizontal_locked:
  "(truthy (isLocked e) \<longrightarrow> set_isHorizontal e v = e)
   \<and> (\<not> truthy (isLocked e) \<longrightarrow>
        set_isHorizontal e v = e\<lparr>f_isHorizontal := v\<rparr> \<and> isHorizontal (set_isHorizontal e v) = v)
   \<and> set_isHorizontal (snd (lock e)) v = snd (lock e)"
  by (simp add: set_isHorizontal_def isHorizontal_def lock_def truthy_def isLocked_def)

theorem set_isHorizontal_locked_witness:
  "set_isHorizontal (snd (lock (StackPanelLayoutEngine_new 4))) False
     = snd (lock (StackPanelLayoutEngine_new 4))
   \<and> isHorizontal (set_isHorizontal (snd (lock (StackPanelLayoutEngine_new 4))) False) = True
   \<and> isHorizontal (set_isHorizontal (StackPanelLayoutEngine_new 4) False) = False"
  using set_isHorizontal_locked [of "snd (lock (StackPanelLayoutEngine_new 4))" False]
        set_isHorizontal_locked [of "StackPanelLayoutEngine_new 4" False]
  by (simp add: lock_def truthy_def isLocked_def StackPanelLayoutEngine_new_def isHorizontal_def)

subsection \<open>The base class's updateLayout\<close>

text \<open>
  C10. \<open>LayoutEngineBase.updateLayout\<close> returns the store it was given: no primitive
  changes, so no \<open>layoutArea\<close> and no \<open>layoutAreaPos\<close> is written, and after any number
  of calls the primitive's dirty flag is what it was (set, if it was set).
\<close>

theorem base_updateLayout_unchanged:
  "LayoutEngineBase_updateLayout this st prim = st
   \<and> ((\<lambda>s. LayoutEngineBase_updateLayout this s prim) ^^ n) st = st
   \<and> layoutDirty ((((\<lambda>s. LayoutEngineBase_updateLayout this s prim) ^^ n) st) prim)
        = layoutDirty (st prim)"
proof -
  have "((\<lambda>s. LayoutEngineBase_updateLayout this s prim) ^^ n) st = st"
    by (induction n) (simp_all add: LayoutEngineBase_updateLayout_def)
  then show ?thesis
    by (simp add: LayoutEngineBase_updateLayout_def)
qed

subsection \<open>The scene, evaluated\<close>

lemma grid_rows: "f_rows example_grid =
   [\<lparr>row_width = Some (Num 100), row_widthPixels = Some (Num 100), row_widthType = Pixels\<rparr>,
    \<lparr>row_width = Some (Num 40), row_widthPixels = Some (Num 40), row_widthType = Pixels\<rparr>]"
  by (simp add: example_grid_def GridPanelLayoutEngine_new_def) code_simp

lemma grid_columns: "f_columns example_grid =
   [\<lparr>col_height = Some (Num 50), col_heightPixels = Some (Num 50), col_heightType = Pixels\<rparr>,
    \<lparr>col_height = Some (Num 60), col_heightPixels = Some (Num 60), col_heightType = Pixels\<rparr>]"
  by (simp add: example_grid_def GridPanelLayoutEngine_new_def) code_simp

lemma example_horizontal_isHorizontal: "isHorizontal example_horizontal"
  by (simp add: example_horizontal_def StackPanelLayoutEngine_new_def set_isHorizontal_def
      lock_def truthy_def isLocked_def isHorizontal_def)

lemma grid_cells: "f_cells example_grid = None"
  by (simp add: example_grid_def GridPanelLayoutEngine_new_def)

lemma scene_facts:
  "layoutDirty (example_scene 0)" "children (example_scene 0) = [2]"
  "layoutDirty (example_scene 2)" "children (example_scene 2) = [3, 4]"
  "getExternalData (example_scene 3) ''grid'' = Some (PrimitiveGridInfo_new 0 0 None None)"
  "getExternalData (example_scene 4) ''grid'' = Some (PrimitiveGridInfo_new 1 1 None None)"
  by (simp_all add: example_scene_def example_prim_def getExternalData_def)

lemma canvas_eval0:
  "CanvasLayoutEngine_updateLayout example_scene 0
     = Inr (clearLayoutDirty
             (example_scene(2 := (example_scene 2)\<lparr>layoutArea := \<lparr>width = 200, height = 100\<rparr>\<rparr>)) 0)"
  by (simp add: CanvasLayoutEngine_updateLayout_def CanvasLayoutEngine_doUpdate_def
      clearLayoutDirty_def example_scene_def example_prim_def)

lemma canvas_eval2:
  "CanvasLayoutEngine_updateLayout example_scene 2
     = Inr (clearLayoutDirty
             (example_scene
               (3 := (example_scene 3)\<lparr>layoutArea := \<lparr>width = 76, height = 36\<rparr>\<rparr>,
                4 := (example_scene 4)\<lparr>layoutArea := \<lparr>width = 76, height = 36\<rparr>\<rparr>)) 2)"
  by (simp add: CanvasLayoutEngine_updateLayout_def CanvasLayoutEngine_doUpdate_def
      clearLayoutDirty_def example_scene_def example_prim_def)

lemma grid_eval:
  "GridPanelLayoutEngine_updateLayout example_grid example_scene 2
     = Inr (example_grid\<lparr>f_cells := Some [[CellInfo, CellInfo], [CellInfo, CellInfo]]\<rparr>,
            clearLayoutDirty example_scene 2)"
proof -
  have u: "[0..<2] = [0, 1]" by (simp add: upt_rec)
  show ?thesis
    by (simp add: GridPanelLayoutEngine_updateLayout_def GridPanelLayoutEngine_updateCellsList_def
        GridPanelLayoutEngine_updateConstants_def Let_def
        grid_rows grid_columns grid_cells scene_facts u array_get_def PrimitiveGridInfo_new_def
        split: prod.splits)
qed

lemma no_grid_facts:
  "layoutDirty (example_scene_no_grid 2)" "children (example_scene_no_grid 2) = [3, 4]"
  "getExternalData (example_scene_no_grid 4) ''grid'' = None"
  "getExternalData (example_scene_no_grid 3) ''grid'' = Some (PrimitiveGridInfo_new 0 0 None None)"
  by (simp_all add: example_scene_no_grid_def example_scene_def example_prim_def getExternalData_def)

subsection \<open>The dirty flag\<close>

text \<open>
  C1. For each of the three engines: a call of \<open>updateLayout\<close> that returns leaves the
  primitive's dirty flag clear, a call on a primitive whose flag is clear returns with
  the store (and the grid engine) as they were, and so a second call straight after a
  call that returned changes nothing. The stack panel's method always returns; the
  other two can throw.
\<close>

theorem updateLayout_clears_dirty:
  "(CanvasLayoutEngine_updateLayout st prim = Inr st' \<longrightarrow>
      \<not> layoutDirty (st' prim) \<and> CanvasLayoutEngine_updateLayout st' prim = Inr st')
   \<and> (\<not> layoutDirty (st prim) \<longrightarrow> CanvasLayoutEngine_updateLayout st prim = Inr st)
   \<and> \<not> layoutDirty (StackPanelLayoutEngine_updateLayout add stack st prim prim)
   \<and> StackPanelLayoutEngine_updateLayout add stack (StackPanelLayoutEngine_updateLayout add stack st prim) prim
        = StackPanelLayoutEngine_updateLayout add stack st prim
   \<and> (\<not> layoutDirty (st prim) \<longrightarrow> StackPanelLayoutEngine_updateLayout add stack st prim = st)
   \<and> (GridPanelLayoutEngine_updateLayout grid st prim = Inr (grid', st'') \<longrightarrow>
        \<not> layoutDirty (st'' prim)
        \<and> GridPanelLayoutEngine_updateLayout grid' st'' prim = Inr (grid', st''))
   \<and> (\<not> layoutDirty (st prim) \<longrightarrow> GridPanelLayoutEngine_updateLayout grid st prim = Inr (grid, st))"
proof -
  have canvas: "CanvasLayoutEngine_updateLayout st prim = Inr st' \<Longrightarrow> \<not> layoutDirty (st' prim)"
    by (auto simp: CanvasLayoutEngine_updateLayout_def clearLayoutDirty_def
             split: if_splits sum.splits)
  have stack: "\<not> layoutDirty (StackPanelLayoutEngine_updateLayout add stack st prim prim)"
    by (simp add: StackPanelLayoutEngine_updateLayout_def clearLayoutDirty_def Let_def
             split: prod.splits)
  have grid: "GridPanelLayoutEngine_updateLayout grid st prim = Inr (grid', st'') \<Longrightarrow>
              \<not> layoutDirty (st'' prim)"
    by (auto simp: GridPanelLayoutEngine_updateLayout_def clearLayoutDirty_def
             split: if_splits sum.splits prod.splits)
  have canvas_noop: "\<not> layoutDirty (s prim) \<Longrightarrow> CanvasLayoutEngine_updateLayout s prim = Inr s" for s
    by (simp add: CanvasLayoutEngine_updateLayout_def)
  have stack_noop: "\<not> layoutDirty (s prim) \<Longrightarrow> StackPanelLayoutEngine_updateLayout add stack s prim = s" for s
    by (simp add: StackPanelLayoutEngine_updateLayout_def)
  have grid_noop: "\<not> layoutDirty (s prim) \<Longrightarrow> GridPanelLayoutEngine_updateLayout g s prim = Inr (g, s)" for s g
    by (simp add: GridPanelLayoutEngine_updateLayout_def)
  show ?thesis
    using canvas stack grid canvas_noop stack_noop grid_noop by blast
qed

theorem updateLayout_clears_dirty_witness:
  "thrown (CanvasLayoutEngine_updateLayout example_scene 2) = None
   \<and> \<not> layoutDirty (state_of (CanvasLayoutEngine_updateLayout example_scene 2) 2)
   \<and> CanvasLayoutEngine_updateLayout (state_of (CanvasLayoutEngine_updateLayout example_scene 2)) 2
        = Inr (state_of (CanvasLayoutEngine_updateLayout example_scene 2))
   \<and> \<not> layoutDirty (StackPanelLayoutEngine_updateLayout (+) example_horizontal example_scene 2 2)
   \<and> thrown (GridPanelLayoutEngine_updateLayout example_grid example_scene 2) = None
   \<and> \<not> layoutDirty (snd (state_of (GridPanelLayoutEngine_updateLayout example_grid example_scene 2)) 2)
   \<and> GridPanelLayoutEngine_updateLayout
        (fst (state_of (GridPanelLayoutEngine_updateLayout example_grid example_scene 2)))
        (snd (state_of (GridPanelLayoutEngine_updateLayout example_grid example_scene 2))) 2
        = Inr (state_of (GridPanelLayoutEngine_updateLayout example_grid example_scene 2))"
  using updateLayout_clears_dirty
    [where st = example_scene and prim = 2 and stack = example_horizontal and grid = example_grid
       and add = "(+)"
       and st' = "state_of (CanvasLayoutEngine_updateLayout example_scene 2)"
       and grid' = "fst (state_of (GridPanelLayoutEngine_updateLayout example_grid example_scene 2))"
       and st'' = "snd (state_of (GridPanelLayoutEngine_updateLayout example_grid example_scene 2))"]
  by (simp add: canvas_eval2 grid_eval thrown_def state_of_def)

subsection \<open>The stack panel\<close>

lemma measure_frame:
  "r \<notin> set cs \<Longrightarrow> fst (StackPanelLayoutEngine_measure h st mx cs) r = st r"
  by (induction cs arbitrary: st mx) (auto simp: Let_def)

lemma marginArea_cong: "st' c = st c \<Longrightarrow> marginArea st' c = marginArea st c"
  by (simp add: marginArea_def)

lemma measure_child:
  "distinct cs \<Longrightarrow> c \<in> set cs \<Longrightarrow>
   fst (StackPanelLayoutEngine_measure h st mx cs) c = (st c)\<lparr>layoutArea := marginArea st c\<rparr>"
proof (induction cs arbitrary: st mx)
  case Nil
  then show ?case by simp
next
  case (Cons a cs)
  show ?case
  proof (cases "c = a")
    case True
    with Cons.prems show ?thesis
      by (simp add: Let_def measure_frame marginArea_def)
  next
    case False
    with Cons.prems have "c \<in> set cs" "distinct cs" by auto
    with Cons.IH False show ?thesis
      by (simp add: Let_def marginArea_def)
  qed
qed

lemma measure_max:
  "distinct cs \<Longrightarrow>
   snd (StackPanelLayoutEngine_measure h st mx cs)
     = Max (insert mx ((\<lambda>c. crossExtent h (marginArea st c)) ` set cs))"
proof (induction cs arbitrary: st mx)
  case Nil
  then show ?case by simp
next
  case (Cons a cs)
  let ?st' = "st(a := (st a)\<lparr>layoutArea := marginArea st a\<rparr>)"
  have same: "(\<lambda>c. crossExtent h (marginArea ?st' c)) ` set cs
              = (\<lambda>c. crossExtent h (marginArea st c)) ` set cs"
    using Cons.prems by (intro image_cong) (auto simp: marginArea_def)
  have "snd (StackPanelLayoutEngine_measure h st mx (a # cs))
        = snd (StackPanelLayoutEngine_measure h ?st' (max mx (crossExtent h (marginArea st a))) cs)"
    by (simp add: Let_def marginArea_def crossExtent_def)
  also have "\<dots> = Max (insert (max mx (crossExtent h (marginArea st a)))
                          ((\<lambda>c. crossExtent h (marginArea ?st' c)) ` set cs))"
    using Cons.prems by (intro Cons.IH) simp
  also have "\<dots> = Max (insert (max mx (crossExtent h (marginArea st a)))
                          ((\<lambda>c. crossExtent h (marginArea st c)) ` set cs))"
    by (simp only: same)
  also have "\<dots> = Max (insert mx ((\<lambda>c. crossExtent h (marginArea st c)) ` set (a # cs)))"
  proof -
    let ?S = "(\<lambda>c. crossExtent h (marginArea st c)) ` set cs"
    have fin: "finite ?S" by simp
    have "Max (insert (max mx (crossExtent h (marginArea st a))) ?S)
          = max (max mx (crossExtent h (marginArea st a))) (Max (insert mx ?S))"
      using fin by (cases "?S = {}") (auto simp: max.assoc max.commute max.left_commute)
    also have "\<dots> = Max (insert mx (insert (crossExtent h (marginArea st a)) ?S))"
      using fin by (cases "?S = {}") (auto simp: max.assoc max.commute max.left_commute)
    finally show ?thesis by simp
  qed
  finally show ?case .
qed

lemma place_frame:
  "r \<notin> set cs \<Longrightarrow> StackPanelLayoutEngine_place add h mx st cx cy cs r = st r"
  by (induction cs arbitrary: st cx cy) (auto simp: Let_def)

lemma place_horizontal:
  "distinct cs \<Longrightarrow> i < length cs \<Longrightarrow>
   StackPanelLayoutEngine_place add True mx st cx cy cs (cs ! i)
     = (st (cs ! i))
         \<lparr>layoutArea := \<lparr>width = width (layoutArea (st (cs ! i))), height = mx\<rparr>,
          layoutAreaPos := \<lparr>x = foldl add cx (map (\<lambda>c. width (layoutArea (st c))) (take i cs)),
                            y = cy\<rparr>\<rparr>"
proof (induction cs arbitrary: st cx i)
  case Nil
  then show ?case by simp
next
  case (Cons a cs)
  show ?case
  proof (cases i)
    case 0
    with Cons.prems show ?thesis
      by (simp add: Let_def place_frame)
  next
    case (Suc k)
    with Cons.prems have k: "k < length cs" and d: "distinct cs" and na: "cs ! k \<noteq> a"
      by auto
    let ?st' = "st(a := (st a)\<lparr>layoutAreaPos := \<lparr>x = cx, y = cy\<rparr>,
                       layoutArea := \<lparr>width = width (layoutArea (st a)), height = mx\<rparr>\<rparr>)"
    have other: "\<forall>c \<in> set (take k cs). c \<noteq> a"
      using Cons.prems by (auto dest: in_set_takeD)
    have meq: "map (\<lambda>c. width (layoutArea (?st' c))) (take k cs)
               = map (\<lambda>c. width (layoutArea (st c))) (take k cs)"
      using other by (intro map_cong) auto
    have "StackPanelLayoutEngine_place add True mx st cx cy (a # cs) ((a # cs) ! i)
          = StackPanelLayoutEngine_place add True mx ?st' (add cx (width (layoutArea (st a)))) cy cs
              (cs ! k)"
      using Suc by (simp add: Let_def)
    also have "\<dots> = (?st' (cs ! k))
         \<lparr>layoutArea := \<lparr>width = width (layoutArea (?st' (cs ! k))), height = mx\<rparr>,
          layoutAreaPos :=
            \<lparr>x = foldl add (add cx (width (layoutArea (st a))))
                   (map (\<lambda>c. width (layoutArea (?st' c))) (take k cs)),
             y = cy\<rparr>\<rparr>"
      by (rule Cons.IH [OF d k])
    also have "\<dots> = (st ((a # cs) ! i))
         \<lparr>layoutArea := \<lparr>width = width (layoutArea (st ((a # cs) ! i))), height = mx\<rparr>,
          layoutAreaPos :=
            \<lparr>x = foldl add cx (map (\<lambda>c. width (layoutArea (st c))) (take i (a # cs))),
             y = cy\<rparr>\<rparr>"
      using na Suc by (simp only: meq) simp
    finally show ?thesis .
  qed
qed

lemma clearLayoutDirty_fields:
  "layoutArea (clearLayoutDirty st prim r) = layoutArea (st r)"
  "layoutAreaPos (clearLayoutDirty st prim r) = layoutAreaPos (st r)"
  by (simp_all add: clearLayoutDirty_def)

lemma stack_horizontal_child:
  assumes dirty: "layoutDirty (st prim)" and hor: "isHorizontal this"
    and dist: "distinct (children (st prim))" and i: "i < length (children (st prim))"
  shows "layoutArea (StackPanelLayoutEngine_updateLayout add this st prim (children (st prim) ! i))
           = \<lparr>width = width (marginArea st (children (st prim) ! i)),
              height = Max (insert 0 ((\<lambda>c. height (marginArea st c)) ` set (children (st prim))))\<rparr>"
    and "layoutAreaPos (StackPanelLayoutEngine_updateLayout add this st prim (children (st prim) ! i))
           = \<lparr>x = foldl add 0 (map (\<lambda>c. width (marginArea st c)) (take i (children (st prim)))),
              y = 0\<rparr>"
proof -
  let ?cs = "children (st prim)"
  let ?m = "StackPanelLayoutEngine_measure True st 0 ?cs"
  let ?st2 = "StackPanelLayoutEngine_place add True (snd ?m) (fst ?m) 0 0 ?cs"
  have upd: "StackPanelLayoutEngine_updateLayout add this st prim = clearLayoutDirty ?st2 prim"
    using dirty hor
    by (simp add: StackPanelLayoutEngine_updateLayout_def Let_def split: prod.splits)
  have mx: "snd ?m = Max (insert 0 ((\<lambda>c. height (marginArea st c)) ` set ?cs))"
    using measure_max [OF dist, of True st 0] by (simp add: crossExtent_def)
  have area1: "layoutArea (fst ?m c) = marginArea st c" if "c \<in> set ?cs" for c
    using measure_child [OF dist that, of True st 0] by simp
  have sums: "map (\<lambda>c. width (layoutArea (fst ?m c))) (take i ?cs)
              = map (\<lambda>c. width (marginArea st c)) (take i ?cs)"
    by (intro map_cong refl) (auto dest: in_set_takeD simp: area1)
  have at_i: "?st2 (?cs ! i)
        = (fst ?m (?cs ! i))
            \<lparr>layoutArea := \<lparr>width = width (layoutArea (fst ?m (?cs ! i))), height = snd ?m\<rparr>,
             layoutAreaPos := \<lparr>x = foldl add 0 (map (\<lambda>c. width (layoutArea (fst ?m c))) (take i ?cs)),
                               y = 0\<rparr>\<rparr>"
    by (rule place_horizontal [OF dist i])
  have a2: "layoutArea (?st2 (?cs ! i))
              = \<lparr>width = width (layoutArea (fst ?m (?cs ! i))), height = snd ?m\<rparr>"
    by (simp add: at_i)
  have p2: "layoutAreaPos (?st2 (?cs ! i))
              = \<lparr>x = foldl add 0 (map (\<lambda>c. width (layoutArea (fst ?m c))) (take i ?cs)), y = 0\<rparr>"
    by (simp add: at_i)
  have mem: "?cs ! i \<in> set ?cs"
    using i by simp
  have "layoutArea (StackPanelLayoutEngine_updateLayout add this st prim (?cs ! i))
          = layoutArea (?st2 (?cs ! i))"
    by (simp only: upd clearLayoutDirty_fields)
  also note a2
  also have "\<lparr>width = width (layoutArea (fst ?m (?cs ! i))), height = snd ?m\<rparr>
          = \<lparr>width = width (marginArea st (?cs ! i)),
             height = Max (insert 0 ((\<lambda>c. height (marginArea st c)) ` set ?cs))\<rparr>"
    by (simp only: mx area1 [OF mem])
  finally show "layoutArea (StackPanelLayoutEngine_updateLayout add this st prim (?cs ! i))
           = \<lparr>width = width (marginArea st (?cs ! i)),
              height = Max (insert 0 ((\<lambda>c. height (marginArea st c)) ` set ?cs))\<rparr>" .
  have "layoutAreaPos (StackPanelLayoutEngine_updateLayout add this st prim (?cs ! i))
          = layoutAreaPos (?st2 (?cs ! i))"
    by (simp only: upd clearLayoutDirty_fields)
  also note p2
  also have "\<lparr>x = foldl add 0 (map (\<lambda>c. width (layoutArea (fst ?m c))) (take i ?cs)), y = 0\<rparr>
          = \<lparr>x = foldl add 0 (map (\<lambda>c. width (marginArea st c)) (take i ?cs)), y = 0\<rparr>"
    by (simp only: sums)
  finally show "layoutAreaPos (StackPanelLayoutEngine_updateLayout add this st prim (?cs ! i))
           = \<lparr>x = foldl add 0 (map (\<lambda>c. width (marginArea st c)) (take i ?cs)), y = 0\<rparr>" .
qed

text \<open>
  C2, as the source has it. A horizontal stack panel on a dirty primitive whose
  children are distinct (a primitive is in the list of its parent once), each child's
  \<open>layoutArea\<close> being an object of its own. With \<open>marginArea st c\<close> the area \<open>computeArea\<close>
  gives child \<open>c\<close> (width \<open>w\<close>, height \<open>h\<close>), after \<open>updateLayout\<close>: the first child is at
  x = 0; each later child is at the x of the child before it plus that child's
  resulting width, the sum being the one JavaScript computes (\<open>add\<close>, whatever it is);
  every child is at y = 0; every child's width is the width of its margin area; and
  every child's height is the maximum of 0 and the heights \<open>h\<close>, since the source starts
  the maximum at 0. That is the maximum of the heights when one of them is not
  negative.
\<close>

theorem stack_horizontal_layout:
  fixes add :: "real \<Rightarrow> real \<Rightarrow> real"
  assumes dirty: "layoutDirty (st prim)" and hor: "isHorizontal this"
    and dist: "distinct (children (st prim))"
  defines "cs \<equiv> children (st prim)"
    and "st' \<equiv> StackPanelLayoutEngine_updateLayout add this st prim"
  shows "\<forall>i < length cs.
           x (layoutAreaPos (st' (cs ! i)))
             = (if i = 0 then 0
                else add (x (layoutAreaPos (st' (cs ! (i - 1)))))
                         (width (layoutArea (st' (cs ! (i - 1))))))
         \<and> y (layoutAreaPos (st' (cs ! i))) = 0
         \<and> width (layoutArea (st' (cs ! i))) = width (marginArea st (cs ! i))
         \<and> height (layoutArea (st' (cs ! i)))
             = Max (insert 0 ((\<lambda>c. height (marginArea st c)) ` set cs))
         \<and> ((\<exists>c \<in> set cs. 0 \<le> height (marginArea st c)) \<longrightarrow>
              height (layoutArea (st' (cs ! i))) = Max ((\<lambda>c. height (marginArea st c)) ` set cs))"
proof (intro allI impI)
  fix i assume i: "i < length cs"
  note area = stack_horizontal_child(1)
    [where st = st and prim = prim and this = this and add = add, OF dirty hor dist,
     folded cs_def st'_def]
  note pos = stack_horizontal_child(2)
    [where st = st and prim = prim and this = this and add = add, OF dirty hor dist,
     folded cs_def st'_def]
  let ?H = "(\<lambda>c. height (marginArea st c)) ` set cs"
  have step: "x (layoutAreaPos (st' (cs ! i)))
             = (if i = 0 then 0
                else add (x (layoutAreaPos (st' (cs ! (i - 1)))))
                         (width (layoutArea (st' (cs ! (i - 1))))))"
  proof (cases i)
    case 0
    with i show ?thesis by (simp add: pos)
  next
    case (Suc k)
    with i have k: "k < length cs" by simp
    show ?thesis
      using i k Suc by (simp add: pos area take_Suc_conv_app_nth)
  qed
  have nonneg: "Max (insert 0 ?H) = Max ?H" if "\<exists>c \<in> set cs. 0 \<le> height (marginArea st c)"
  proof -
    from that obtain c where c: "c \<in> set cs" "0 \<le> height (marginArea st c)" by blast
    have "height (marginArea st c) \<le> Max ?H"
      using c(1) by (intro Max_ge) auto
    with c(2) have "0 \<le> Max ?H" by simp
    moreover have "?H \<noteq> {}" using c(1) by auto
    ultimately show ?thesis by (simp add: max_def)
  qed
  show "x (layoutAreaPos (st' (cs ! i)))
             = (if i = 0 then 0
                else add (x (layoutAreaPos (st' (cs ! (i - 1)))))
                         (width (layoutArea (st' (cs ! (i - 1))))))
         \<and> y (layoutAreaPos (st' (cs ! i))) = 0
         \<and> width (layoutArea (st' (cs ! i))) = width (marginArea st (cs ! i))
         \<and> height (layoutArea (st' (cs ! i))) = Max (insert 0 ?H)
         \<and> ((\<exists>c \<in> set cs. 0 \<le> height (marginArea st c)) \<longrightarrow>
              height (layoutArea (st' (cs ! i))) = Max ?H)"
    using step i nonneg by (simp add: pos area)
qed

theorem stack_horizontal_layout_witness:
  "layoutAreaPos (StackPanelLayoutEngine_updateLayout (+) example_horizontal example_scene 2 3)
     = \<lparr>x = 0, y = 0\<rparr>
   \<and> layoutAreaPos (StackPanelLayoutEngine_updateLayout (+) example_horizontal example_scene 2 4)
       = \<lparr>x = 50, y = 0\<rparr>
   \<and> layoutArea (StackPanelLayoutEngine_updateLayout (+) example_horizontal example_scene 2 3)
       = \<lparr>width = 50, height = 40\<rparr>
   \<and> layoutArea (StackPanelLayoutEngine_updateLayout (+) example_horizontal example_scene 2 4)
       = \<lparr>width = 30, height = 40\<rparr>"
proof -
  have cs: "children (example_scene 2) = [3, 4]" by (rule scene_facts)
  have d: "layoutDirty (example_scene 2)" by (rule scene_facts)
  have di: "distinct (children (example_scene 2))" unfolding cs by simp
  have m3: "marginArea example_scene 3 = \<lparr>width = 50, height = 20\<rparr>"
    by (simp add: marginArea_def computeArea_def example_scene_def example_prim_def)
  have m4: "marginArea example_scene 4 = \<lparr>width = 30, height = 40\<rparr>"
    by (simp add: marginArea_def computeArea_def example_scene_def example_prim_def)
  note t = stack_horizontal_layout
    [where st = example_scene and prim = 2 and this = example_horizontal and add = "(+)",
     OF d example_horizontal_isHorizontal di, unfolded cs]
  from t [rule_format, of 0] t [rule_format, of 1]
  show ?thesis by (simp add: m3 m4)
qed

text \<open>
  C2 as stated fails where every height is negative: with margin areas 50 by -20 and
  30 by -40 the children both get the height 0, and the maximum of their heights
  is -20.
\<close>

theorem stack_negative_heights_counterexample:
  "layoutDirty (example_scene_negative 2) \<and> isHorizontal example_horizontal
   \<and> children (example_scene_negative 2) = [3, 4]
   \<and> marginArea example_scene_negative 3 = \<lparr>width = 50, height = - 20\<rparr>
   \<and> marginArea example_scene_negative 4 = \<lparr>width = 30, height = - 40\<rparr>
   \<and> height (layoutArea
        (StackPanelLayoutEngine_updateLayout (+) example_horizontal example_scene_negative 2 3)) = 0
   \<and> height (layoutArea
        (StackPanelLayoutEngine_updateLayout (+) example_horizontal example_scene_negative 2 4)) = 0
   \<and> max (height (marginArea example_scene_negative 3))
          (height (marginArea example_scene_negative 4)) = - 20"
proof -
  have cs: "children (example_scene_negative 2) = [3, 4]"
    and d: "layoutDirty (example_scene_negative 2)"
    by (simp_all add: example_scene_negative_def example_scene_def example_prim_def)
  have di: "distinct (children (example_scene_negative 2))" unfolding cs by simp
  have m3: "marginArea example_scene_negative 3 = \<lparr>width = 50, height = - 20\<rparr>"
    by (simp add: marginArea_def computeArea_def example_scene_negative_def example_scene_def
        example_prim_def)
  have m4: "marginArea example_scene_negative 4 = \<lparr>width = 30, height = - 40\<rparr>"
    by (simp add: marginArea_def computeArea_def example_scene_negative_def example_scene_def
        example_prim_def)
  note a = stack_horizontal_child(1)
    [where st = example_scene_negative and prim = 2 and this = example_horizontal and add = "(+)",
     OF d example_horizontal_isHorizontal di, unfolded cs]
  from a [of 0] a [of 1]
  show ?thesis
    by (simp add: cs d m3 m4 example_horizontal_isHorizontal)
qed

subsection \<open>The canvas engine\<close>

text \<open>
  What the canvas engine does to the children of the primitive it is called on: in a
  tree (the children are distinct, none of them is a canvas or the primitive itself,
  each has the primitive as its parent and, under a canvas, that canvas as its owner)
  each child's \<open>layoutArea\<close> becomes the canvas's \<open>actualSize\<close> when the primitive is the
  canvas, and the primitive's \<open>contentArea\<close> otherwise. The primitive's own \<open>layoutArea\<close>
  is not written.
\<close>

lemma doUpdate_frame:
  "r \<noteq> c \<Longrightarrow> state_of (CanvasLayoutEngine_doUpdate st c) r = st r"
  by (simp add: CanvasLayoutEngine_doUpdate_def state_of_def split: option.splits)

lemma forChildren_frame:
  "r \<notin> set cs \<Longrightarrow> state_of (CanvasLayoutEngine_forChildren st cs) r = st r"
proof (induction cs arbitrary: st)
  case Nil
  then show ?case by (simp add: state_of_def)
next
  case (Cons a cs)
  then have r: "r \<noteq> a" "r \<notin> set cs" by auto
  show ?case
  proof (cases "CanvasLayoutEngine_doUpdate st a")
    case (Inl e)
    with doUpdate_frame [OF r(1), of st] show ?thesis
      by (simp add: state_of_def)
  next
    case (Inr s1)
    with doUpdate_frame [OF r(1), of st] Cons.IH [OF r(2), of s1] show ?thesis
      by (simp add: state_of_def)
  qed
qed

lemma canvas_own_area:
  assumes "prim \<notin> set (children (st prim))"
  shows "layoutArea (state_of (CanvasLayoutEngine_updateLayout st prim) prim) = layoutArea (st prim)"
  using forChildren_frame [OF assms, of st]
  by (auto simp: CanvasLayoutEngine_updateLayout_def state_of_def clearLayoutDirty_def
           split: sum.splits)

lemma canvas_child_area:
  assumes ok: "CanvasLayoutEngine_forChildren st cs = Inr st'"
    and dist: "distinct cs" and c: "c \<in> set cs"
    and nc: "\<forall>c \<in> set cs. \<not> isCanvas2D (st c) \<and> parent (st c) = Some p
                \<and> (isCanvas2D (st p) \<longrightarrow> owner (st c) = Some p)"
    and p: "p \<notin> set cs"
  shows "layoutArea (st' c) = (if isCanvas2D (st p) then actualSize (st p) else contentArea (st p))"
  using ok dist c nc p
proof (induction cs arbitrary: st)
  case Nil
  then show ?case by simp
next
  case (Cons a cs)
  from Cons.prems(1) obtain s1 where
    s1: "CanvasLayoutEngine_doUpdate st a = Inr s1" "CanvasLayoutEngine_forChildren s1 cs = Inr st'"
    by (auto split: sum.splits)
  have a: "\<not> isCanvas2D (st a)" "parent (st a) = Some p" "isCanvas2D (st p) \<longrightarrow> owner (st a) = Some p"
    "a \<noteq> p" "a \<notin> set cs" "distinct cs"
    using Cons.prems by auto
  have s1_eq: "s1 = st(a := (st a)\<lparr>layoutArea :=
                  (if isCanvas2D (st p) then actualSize (st p) else contentArea (st p))\<rparr>)"
    using s1(1) a by (auto simp: CanvasLayoutEngine_doUpdate_def split: if_splits)
  show ?case
  proof (cases "c = a")
    case True
    have "st' a = s1 a"
      using forChildren_frame [OF a(5), of s1] s1(2) by (simp add: state_of_def)
    with True s1_eq show ?thesis by simp
  next
    case False
    with Cons.prems(3) have "c \<in> set cs" by simp
    moreover have "\<forall>c \<in> set cs. \<not> isCanvas2D (s1 c) \<and> parent (s1 c) = Some p
                \<and> (isCanvas2D (s1 p) \<longrightarrow> owner (s1 c) = Some p)"
      using Cons.prems(4) a by (simp add: s1_eq)
    moreover have "p \<notin> set cs" using Cons.prems(5) by simp
    ultimately have "layoutArea (st' c)
        = (if isCanvas2D (s1 p) then actualSize (s1 p) else contentArea (s1 p))"
      using Cons.IH [OF s1(2) a(6)] by blast
    with a(4) show ?thesis by (simp add: s1_eq)
  qed
qed

text \<open>
  C6, at the scene: \<open>updateLayout\<close> on the dirty canvas returns, the canvas's child gets the
  canvas's \<open>actualSize\<close> (200 by 100) as its \<open>layoutArea\<close>, and the canvas's own \<open>layoutArea\<close>
  is still 7 by 9, not its \<open>actualSize\<close>. \<open>_doUpdate\<close> has a branch for a canvas, and the
  comment in \<open>updateLayout\<close> says the primitive's own area is updated too, but
  \<open>updateLayout\<close> calls \<open>_doUpdate\<close> on the children only, and a canvas is nobody's child.
\<close>

theorem canvas_root_area_not_written:
  "thrown (CanvasLayoutEngine_updateLayout example_scene 0) = None
   \<and> isCanvas2D (example_scene 0) \<and> parent (example_scene 0) = None
   \<and> layoutDirty (example_scene 0)
   \<and> actualSize (state_of (CanvasLayoutEngine_updateLayout example_scene 0) 0)
        = \<lparr>width = 200, height = 100\<rparr>
   \<and> layoutArea (state_of (CanvasLayoutEngine_updateLayout example_scene 0) 0)
        = \<lparr>width = 7, height = 9\<rparr>
   \<and> layoutArea (state_of (CanvasLayoutEngine_updateLayout example_scene 0) 2)
        = \<lparr>width = 200, height = 100\<rparr>"
  by (simp add: canvas_eval0 thrown_def state_of_def clearLayoutDirty_def)
     (simp add: example_scene_def example_prim_def)

subsection \<open>The grid engine\<close>

lemma forChildren_None:
  "length cells = length (f_rows g) \<Longrightarrow>
   GridPanelLayoutEngine_forChildren cells st cs
     = (if list_all (\<lambda>c. placed g (st c)) cs then None else Some TypeError)"
  by (induction cs) (auto simp: placed_def array_get_def Let_def split: option.splits)

lemma updateCellsList_result:
  "GridPanelLayoutEngine_updateCellsList g st prim
     = (if f_cells g \<noteq> None then Inr g
        else if list_all (\<lambda>c. placed g (st c)) (children (st prim))
        then Inr (g\<lparr>f_cells := Some (map (\<lambda>i. map (\<lambda>j. CellInfo) [0..<length (f_columns g)])
                                         [0..<length (f_rows g)])\<rparr>)
        else Inl (TypeError,
                  g\<lparr>f_cells := Some (map (\<lambda>i. map (\<lambda>j. CellInfo) [0..<length (f_columns g)])
                                         [0..<length (f_rows g)])\<rparr>))"
  by (simp add: GridPanelLayoutEngine_updateCellsList_def Let_def forChildren_None [where g = g]
           split: option.splits)

lemma grid_updateLayout_result:
  "GridPanelLayoutEngine_updateLayout g st prim
     = (if \<not> layoutDirty (st prim) then Inr (g, st)
        else if f_cells g \<noteq> None then Inr (g, clearLayoutDirty st prim)
        else if list_all (\<lambda>c. placed g (st c)) (children (st prim))
        then Inr (g\<lparr>f_cells := Some (map (\<lambda>i. map (\<lambda>j. CellInfo) [0..<length (f_columns g)])
                                         [0..<length (f_rows g)])\<rparr>,
                  clearLayoutDirty st prim)
        else Inl (TypeError,
                  g\<lparr>f_cells := Some (map (\<lambda>i. map (\<lambda>j. CellInfo) [0..<length (f_columns g)])
                                         [0..<length (f_rows g)])\<rparr>,
                  st))"
  by (simp add: GridPanelLayoutEngine_updateLayout_def updateCellsList_result
           split: prod.splits)

lemma grid_store:
  "snd (state_of (GridPanelLayoutEngine_updateLayout g st prim))
     = (if layoutDirty (st prim) \<and> thrown (GridPanelLayoutEngine_updateLayout g st prim) = None
        then clearLayoutDirty st prim else st)"
  by (simp add: GridPanelLayoutEngine_updateLayout_def state_of_def thrown_def
           split: sum.splits prod.splits)

text \<open>
  C7, as the source has it: the grid's \<open>updateLayout\<close> writes no \<open>layoutArea\<close> and no
  \<open>layoutAreaPos\<close>. Whatever the engine, the store and the primitive, every primitive
  has the \<open>layoutArea\<close> and \<open>layoutAreaPos\<close> it had, and the store after the call is the
  store before it, with the primitive's dirty flag cleared when the primitive was dirty
  and the call returned. The engine after the call is the engine before it, with the
  cell table (one \<open>CellInfo\<close> for each row and column) built and kept when the primitive
  was dirty and the engine had no table; an engine that has a table is left as it is.
\<close>

theorem grid_updateLayout_writes_no_child:
  "layoutArea (snd (state_of (GridPanelLayoutEngine_updateLayout g st prim)) c) = layoutArea (st c)
   \<and> layoutAreaPos (snd (state_of (GridPanelLayoutEngine_updateLayout g st prim)) c)
        = layoutAreaPos (st c)
   \<and> snd (state_of (GridPanelLayoutEngine_updateLayout g st prim))
        = (if layoutDirty (st prim) \<and> thrown (GridPanelLayoutEngine_updateLayout g st prim) = None
           then clearLayoutDirty st prim else st)
   \<and> fst (state_of (GridPanelLayoutEngine_updateLayout g st prim))
        = (if layoutDirty (st prim) \<and> f_cells g = None
           then g\<lparr>f_cells := Some (map (\<lambda>i. map (\<lambda>j. CellInfo) [0..<length (f_columns g)])
                                      [0..<length (f_rows g)])\<rparr>
           else g)"
proof -
  have "fst (state_of (GridPanelLayoutEngine_updateLayout g st prim))
        = (if layoutDirty (st prim) \<and> f_cells g = None
           then g\<lparr>f_cells := Some (map (\<lambda>i. map (\<lambda>j. CellInfo) [0..<length (f_columns g)])
                                      [0..<length (f_rows g)])\<rparr>
           else g)"
    by (simp add: grid_updateLayout_result state_of_def)
  then show ?thesis
    by (simp add: grid_store clearLayoutDirty_def)
qed

text \<open>
  C7 as stated fails at the scene: the child in cell (1, 1) of a grid with rows of
  100 and 40 pixels and columns of 50 and 60 pixels keeps the area 7 by 9 and the
  position (3, 4) it had, while its cell is 60 by 40 at (50, 100).
\<close>

theorem grid_children_not_assigned_counterexample:
  "layoutDirty (example_scene 2) \<and> children (example_scene 2) = [3, 4]
   \<and> getExternalData (example_scene 4) ''grid'' = Some (PrimitiveGridInfo_new 1 1 None None)
   \<and> thrown (GridPanelLayoutEngine_updateLayout example_grid example_scene 2) = None
   \<and> layoutArea (snd (state_of (GridPanelLayoutEngine_updateLayout example_grid example_scene 2)) 4)
        = \<lparr>width = 7, height = 9\<rparr>
   \<and> claimed_cell_area example_grid (PrimitiveGridInfo_new 1 1 None None)
        = \<lparr>width = 60, height = 40\<rparr>
   \<and> layoutAreaPos (snd (state_of (GridPanelLayoutEngine_updateLayout example_grid example_scene 2)) 4)
        = \<lparr>x = 3, y = 4\<rparr>
   \<and> claimed_cell_pos example_grid (PrimitiveGridInfo_new 1 1 None None)
        = \<lparr>x = 50, y = 100\<rparr>"
proof -
  have "claimed_cell_area example_grid (PrimitiveGridInfo_new 1 1 None None)
        = \<lparr>width = 60, height = 40\<rparr>"
    by (simp add: claimed_cell_area_def grid_rows grid_columns PrimitiveGridInfo_new_def pixelsOf_def)
  moreover have "claimed_cell_pos example_grid (PrimitiveGridInfo_new 1 1 None None)
        = \<lparr>x = 50, y = 100\<rparr>"
    by (simp add: claimed_cell_pos_def grid_rows grid_columns PrimitiveGridInfo_new_def pixelsOf_def)
  moreover have "layoutDirty (example_scene 2) \<and> children (example_scene 2) = [3, 4]
   \<and> getExternalData (example_scene 4) ''grid'' = Some (PrimitiveGridInfo_new 1 1 None None)"
    by (simp add: example_scene_def example_prim_def getExternalData_def)
  moreover have "layoutArea (clearLayoutDirty example_scene 2 4) = \<lparr>width = 7, height = 9\<rparr>"
     "layoutAreaPos (clearLayoutDirty example_scene 2 4) = \<lparr>x = 3, y = 4\<rparr>"
    by (simp_all add: clearLayoutDirty_def example_scene_def example_prim_def)
  ultimately show ?thesis
    by (simp add: grid_eval thrown_def state_of_def)
qed

text \<open>
  C8, as the source has it. A failure of the grid's \<open>updateLayout\<close> is a TypeError
  thrown to the caller: nothing catches it. The store is then as it was, so the dirty
  flag is still set; the engine has kept the cell table it built, so the same call
  made again returns and clears the flag. The call throws when a child of a dirty
  primitive has no \<open>"grid"\<close> entry and the table is not built yet, and it throws exactly
  when the primitive is dirty, the table is not built and some child is not \<open>placed\<close>.
\<close>

theorem grid_updateLayout_failure:
  "(GridPanelLayoutEngine_updateLayout g st prim = Inl (e, (g', st')) \<longrightarrow>
      e = TypeError \<and> st' = st \<and> layoutDirty (st' prim)
      \<and> GridPanelLayoutEngine_updateLayout g' st' prim = Inr (g', clearLayoutDirty st prim))
   \<and> (layoutDirty (st prim) \<and> f_cells g = None \<and> c \<in> set (children (st prim))
        \<and> getExternalData (st c) ''grid'' = None \<longrightarrow>
      thrown (GridPanelLayoutEngine_updateLayout g st prim) = Some TypeError
      \<and> snd (state_of (GridPanelLayoutEngine_updateLayout g st prim)) = st)
   \<and> (thrown (GridPanelLayoutEngine_updateLayout g st prim) \<noteq> None)
        = (layoutDirty (st prim) \<and> f_cells g = None
           \<and> (\<exists>c \<in> set (children (st prim)). \<not> placed g (st c)))"
proof -
  have a: "GridPanelLayoutEngine_updateLayout g st prim = Inl (e, (g', st')) \<Longrightarrow>
      e = TypeError \<and> st' = st \<and> layoutDirty (st' prim)
      \<and> GridPanelLayoutEngine_updateLayout g' st' prim = Inr (g', clearLayoutDirty st prim)"
    by (auto simp: grid_updateLayout_result [of g] grid_updateLayout_result [of g'] split: if_splits)
  have np: "\<not> list_all (\<lambda>c. placed g (st c)) (children (st prim))"
    if "c \<in> set (children (st prim))" "getExternalData (st c) ''grid'' = None"
  proof -
    from that(2) have "\<not> placed g (st c)" by (simp add: placed_def)
    with that(1) show ?thesis by (auto simp: list_all_iff)
  qed
  have b: "layoutDirty (st prim) \<and> f_cells g = None \<and> c \<in> set (children (st prim))
        \<and> getExternalData (st c) ''grid'' = None \<Longrightarrow>
      thrown (GridPanelLayoutEngine_updateLayout g st prim) = Some TypeError
      \<and> snd (state_of (GridPanelLayoutEngine_updateLayout g st prim)) = st"
    using np by (simp add: grid_updateLayout_result thrown_def state_of_def)
  have c: "(thrown (GridPanelLayoutEngine_updateLayout g st prim) \<noteq> None)
        = (layoutDirty (st prim) \<and> f_cells g = None
           \<and> (\<exists>c \<in> set (children (st prim)). \<not> placed g (st c)))"
    by (simp add: grid_updateLayout_result thrown_def list_all_iff)
  from a b c show ?thesis by blast
qed

theorem grid_updateLayout_failure_witness:
  "thrown (GridPanelLayoutEngine_updateLayout example_grid example_scene_no_grid 2) = Some TypeError
   \<and> layoutDirty (snd (state_of (GridPanelLayoutEngine_updateLayout example_grid example_scene_no_grid 2)) 2)
   \<and> thrown (GridPanelLayoutEngine_updateLayout
               (fst (state_of (GridPanelLayoutEngine_updateLayout example_grid example_scene_no_grid 2)))
               example_scene_no_grid 2) = None"
proof -
  have e: "GridPanelLayoutEngine_updateLayout example_grid example_scene_no_grid 2
        = Inl (TypeError,
               example_grid\<lparr>f_cells := Some [[CellInfo, CellInfo], [CellInfo, CellInfo]]\<rparr>,
               example_scene_no_grid)"
  proof -
    have u: "[0..<2] = [0, 1]" by (simp add: upt_rec)
    have "\<not> placed example_grid (example_scene_no_grid 4)"
      by (simp add: placed_def no_grid_facts)
    then show ?thesis
      by (simp add: grid_updateLayout_result no_grid_facts grid_cells grid_rows grid_columns u)
  qed
  from grid_updateLayout_failure [of example_grid example_scene_no_grid 2 TypeError
      "example_grid\<lparr>f_cells := Some [[CellInfo, CellInfo], [CellInfo, CellInfo]]\<rparr>"
      example_scene_no_grid 4]
  show ?thesis
    by (simp add: e no_grid_facts grid_cells thrown_def state_of_def)
qed

text \<open>
  C8 as stated fails at the scene without the last child's \<open>"grid"\<close> entry: the call
  ends in a TypeError that leaves \<open>updateLayout\<close>.
\<close>

theorem grid_missing_placement_counterexample:
  "layoutDirty (example_scene_no_grid 2) \<and> children (example_scene_no_grid 2) = [3, 4]
   \<and> getExternalData (example_scene_no_grid 4) ''grid'' = None
   \<and> GridPanelLayoutEngine_updateLayout example_grid example_scene_no_grid 2
        = Inl (TypeError,
               example_grid\<lparr>f_cells := Some [[CellInfo, CellInfo], [CellInfo, CellInfo]]\<rparr>,
               example_scene_no_grid)"
proof -
  have u: "[0..<2] = [0, 1]" by (simp add: upt_rec)
  have "\<not> placed example_grid (example_scene_no_grid 4)"
    by (simp add: placed_def no_grid_facts)
  then show ?thesis
    by (simp add: grid_updateLayout_result no_grid_facts grid_cells grid_rows grid_columns u)
qed

subsection \<open>The grid's dimension strings\<close>

lemma toLowerChar_idem: "toLowerChar (toLowerChar c) = toLowerChar c"
  by (auto simp: toLowerChar_def isUpper_def code_def)

lemma isWhiteSpace_toLowerChar: "isWhiteSpace (toLowerChar c) = isWhiteSpace c"
  by (auto simp: toLowerChar_def isUpper_def isWhiteSpace_def code_def)

lemma toLocaleLowerCase_idem: "toLocaleLowerCase (toLocaleLowerCase s) = toLocaleLowerCase s"
  by (simp add: toLocaleLowerCase_def toLowerChar_idem)

lemma trim_toLocaleLowerCase: "trim (toLocaleLowerCase s) = toLocaleLowerCase (trim s)"
proof -
  have comp: "isWhiteSpace \<circ> toLowerChar = isWhiteSpace"
    by (rule ext) (simp add: isWhiteSpace_toLowerChar)
  show ?thesis
    by (simp add: trim_def trimEnd_def trimStart_def toLocaleLowerCase_def dropWhile_map rev_map comp)
qed

lemma trimStart_trimEnd:
  assumes "v = [] \<or> \<not> isWhiteSpace (hd v)"
  shows "trimStart (trimEnd v) = trimEnd v"
proof (cases v)
  case Nil
  then show ?thesis by (simp add: trimStart_def trimEnd_def)
next
  case (Cons a w)
  with assms have a: "\<not> isWhiteSpace a" by simp
  have "trimEnd v = a # rev (dropWhile isWhiteSpace (rev w)) \<or> trimEnd v = [a]"
    by (simp add: Cons trimEnd_def dropWhile_append a)
  then show ?thesis by (auto simp: trimStart_def a)
qed

lemma trimEnd_idem: "trimEnd (trimEnd v) = trimEnd v"
  by (simp add: trimEnd_def)

lemma trim_idem: "trim (trim s) = trim s"
proof -
  let ?u = "trimStart s"
  have u: "?u = [] \<or> \<not> isWhiteSpace (hd ?u)"
    using hd_dropWhile [of isWhiteSpace s] by (auto simp: trimStart_def)
  show ?thesis
    by (simp add: trim_def trimStart_trimEnd [OF u] trimEnd_idem)
qed

lemma trim_padding:
  assumes p: "list_all isWhiteSpace p" and q: "list_all isWhiteSpace q"
  shows "trim (p @ u @ q) = trim u"
proof -
  have 1: "trimStart (p @ u @ q) = trimStart (u @ q)"
    using p by (simp add: trimStart_def dropWhile_append list_all_iff)
  show ?thesis
  proof (cases "list_all isWhiteSpace u")
    case True
    with q have "trimStart (u @ q) = []" "trimStart u = []"
      by (simp_all add: trimStart_def list_all_iff)
    with 1 show ?thesis by (simp add: trim_def)
  next
    case False
    then have "trimStart (u @ q) = trimStart u @ q"
      by (auto simp: trimStart_def dropWhile_append list_all_iff)
    with 1 q show ?thesis
      by (simp add: trim_def trimEnd_def dropWhile_append list_all_iff)
  qed
qed

lemma parse_normal:
  "GridDimensionDefinition_parse s res
     = GridDimensionDefinition_parse (trim (toLocaleLowerCase s)) res"
proof -
  have "trim (toLocaleLowerCase (trim (toLocaleLowerCase s))) = trim (toLocaleLowerCase s)"
    by (simp add: trim_toLocaleLowerCase toLocaleLowerCase_idem trim_idem)
  then show ?thesis
    by (simp add: GridDimensionDefinition_parse_def)
qed

lemma normal_examples:
  "trim (toLocaleLowerCase ''100'') = ''100''"
  "trim (toLocaleLowerCase ''2*'') = ''2*''"
  "trim (toLocaleLowerCase ''Auto'') = ''auto''"
  "trim (toLocaleLowerCase ''  AUTO '') = ''auto''"
  by code_simp+

lemma parseFloat_examples:
  "parseFloat ''100'' = Num 100" "parseFloat ''2'' = Num 2"
  by (simp_all add: parseFloat_def unsignedDecimal_def scale10_def exponentPart_def
      signPrefix_def startsWith_def digitsValue_def isDigit_def trimStart_def isWhiteSpace_def
      code_def)

lemma parse_examples:
  "GridDimensionDefinition_parse ''100'' res = res (Some (Num 100)) (Some (Num 100)) Pixels"
  "GridDimensionDefinition_parse ''2*'' res = res (Some (Num 2)) None Stars"
  "GridDimensionDefinition_parse ''Auto'' res = res None None Auto"
  "GridDimensionDefinition_parse ''  AUTO '' res = res None None Auto"
  by (simp_all add: GridDimensionDefinition_parse_def normal_examples indexOf_def startsWith_def
      substr_def parseFloat_examples Let_def)

text \<open>
  C3. \<open>_parse\<close> gives \<open>"100"\<close> the type Pixels with the value and the pixel value 100,
  \<open>"2*"\<close> the type Stars with the value 2, and \<open>"Auto"\<close> the type Auto. Every string
  parses as its trimmed lower-case form does; so a string padded with white space, in
  any mix of cases, parses as the trimmed lower-case form of the string it was made
  from.
\<close>

theorem parse_dimension:
  "GridDimensionDefinition_parse ''100'' res = res (Some (Num 100)) (Some (Num 100)) Pixels
   \<and> GridDimensionDefinition_parse ''2*'' res = res (Some (Num 2)) None Stars
   \<and> GridDimensionDefinition_parse ''Auto'' res = res None None Auto
   \<and> GridDimensionDefinition_parse s res
        = GridDimensionDefinition_parse (trim (toLocaleLowerCase s)) res
   \<and> (list_all isWhiteSpace p \<and> list_all isWhiteSpace q
        \<and> toLocaleLowerCase s' = toLocaleLowerCase s \<longrightarrow>
        GridDimensionDefinition_parse (p @ s' @ q) res
          = GridDimensionDefinition_parse (trim (toLocaleLowerCase s)) res)"
proof -
  have "GridDimensionDefinition_parse (p @ s' @ q) res
          = GridDimensionDefinition_parse (trim (toLocaleLowerCase s)) res"
    if p: "list_all isWhiteSpace p" and q: "list_all isWhiteSpace q"
      and l: "toLocaleLowerCase s' = toLocaleLowerCase s"
  proof -
    have "trim (toLocaleLowerCase (p @ s' @ q)) = toLocaleLowerCase (trim (p @ s' @ q))"
      by (rule trim_toLocaleLowerCase)
    also have "\<dots> = toLocaleLowerCase (trim s')"
      by (simp only: trim_padding [OF p q])
    also have "\<dots> = trim (toLocaleLowerCase s)"
      by (simp only: trim_toLocaleLowerCase [symmetric] l)
    finally show ?thesis
      by (subst parse_normal) simp
  qed
  with parse_examples(1-3) [of res] parse_normal [of s res] show ?thesis
    by blast
qed

theorem parse_dimension_witness:
  "GridDimensionDefinition_parse ''  AUTO '' (\<lambda>v vp t. (v, vp, t)) = (None, None, Auto)
   \<and> GridDimensionDefinition_parse '' 2* '' (\<lambda>v vp t. (v, vp, t))
       = GridDimensionDefinition_parse ''2*'' (\<lambda>v vp t. (v, vp, t))"
proof -
  have ws: "list_all isWhiteSpace ''  ''" "list_all isWhiteSpace '' ''"
    by (simp_all add: isWhiteSpace_def code_def)
  have l: "toLocaleLowerCase ''AUTO'' = toLocaleLowerCase ''auto''"
    by code_simp
  have n: "trim (toLocaleLowerCase ''auto'') = ''auto''" "trim (toLocaleLowerCase ''2*'') = ''2*''"
    by code_simp+
  from parse_dimension [of "\<lambda>v vp t. (v, vp, t)" "''auto''" "''  ''" "'' ''" "''AUTO''"]
       parse_dimension [of "\<lambda>v vp t. (v, vp, t)" "''2*''" "'' ''" "'' ''" "''2*''"]
  show ?thesis
    using ws l n by (simp add: parse_examples)
qed

subsection \<open>The singletons\<close>

lemma new_locked:
  "snd (lock (set_isHorizontal (StackPanelLayoutEngine_new f) v))
     = \<lparr>layoutDirtyOnPropertyChangedMask = f, f_isLocked = Some True, f_isHorizontal = v\<rparr>"
  by (simp add: lock_def set_isHorizontal_def StackPanelLayoutEngine_new_def truthy_def isLocked_def)

lemma Horizontal_result:
  "Horizontal f w =
     (case s_horizontal w of
        Some r \<Rightarrow> (r, w)
      | None \<Rightarrow> (length (instances w),
                 w\<lparr>instances := instances w @
                      [\<lparr>layoutDirtyOnPropertyChangedMask = f, f_isLocked = Some True,
                        f_isHorizontal = True\<rparr>],
                   s_horizontal := Some (length (instances w))\<rparr>))"
  by (simp add: Horizontal_def instance_update_def Let_def new_locked [symmetric]
           split: option.splits)

lemma Vertical_result:
  "Vertical f w =
     (case s_vertical w of
        Some r \<Rightarrow> (r, w)
      | None \<Rightarrow> (length (instances w),
                 w\<lparr>instances := instances w @
                      [\<lparr>layoutDirtyOnPropertyChangedMask = f, f_isLocked = Some True,
                        f_isHorizontal = False\<rparr>],
                   s_vertical := Some (length (instances w))\<rparr>))"
  by (simp add: Vertical_def instance_update_def Let_def new_locked [symmetric]
           split: option.splits)

lemma Horizontal_again:
  "s_horizontal (snd (Horizontal f w)) = Some (fst (Horizontal f w))"
  "Horizontal f (snd (Horizontal f w)) = Horizontal f w"
  "s_horizontal (snd (Vertical f w)) = s_horizontal w"
  by (simp_all add: Horizontal_result Vertical_result split: option.splits)

lemma Vertical_again:
  "s_vertical (snd (Vertical f w)) = Some (fst (Vertical f w))"
  "Vertical f (snd (Vertical f w)) = Vertical f w"
  "s_vertical (snd (Horizontal f w)) = s_vertical w"
  by (simp_all add: Horizontal_result Vertical_result split: option.splits)

lemma statics_ok_Horizontal: "statics_ok w \<Longrightarrow> statics_ok (snd (Horizontal f w))"
  by (auto simp: statics_ok_def Horizontal_result isLocked_def isHorizontal_def nth_append
           split: option.splits)

lemma statics_ok_Vertical: "statics_ok w \<Longrightarrow> statics_ok (snd (Vertical f w))"
  by (auto simp: statics_ok_def Vertical_result isLocked_def isHorizontal_def nth_append
           split: option.splits)

lemma locked_fixed:
  "isLocked e = Some True \<Longrightarrow> set_isHorizontal e v = e"
  "isLocked e = Some True \<Longrightarrow> snd (lock e) = e"
  by (simp_all add: set_isHorizontal_def lock_def truthy_def isLocked_def)

lemma nth_update_fixed:
  "r < length xs \<Longrightarrow> g (xs ! r) = xs ! r \<Longrightarrow> xs[k := g (xs ! k)] ! r = xs ! r"
  by (cases "r = k") simp_all

lemma statics_ok_update:
  assumes ok: "statics_ok w" and fixed: "\<And>e. isLocked e = Some True \<Longrightarrow> g e = e"
  shows "statics_ok (instance_update k g w)"
proof -
  have keep: "instances (instance_update k g w) ! r = instances w ! r"
    if "r < length (instances w)" "isLocked (instances w ! r) = Some True" for r
    using that by (simp add: instance_update_def nth_update_fixed fixed)
  have len: "length (instances (instance_update k g w)) = length (instances w)"
    "s_horizontal (instance_update k g w) = s_horizontal w"
    "s_vertical (instance_update k g w) = s_vertical w"
    by (simp_all add: instance_update_def)
  show ?thesis
    using ok unfolding statics_ok_def len
    by (auto simp: keep split: option.splits)
qed

lemma statics_ok_client:
  assumes "statics_ok w"
  shows "statics_ok (instance_update k (\<lambda>e. set_isHorizontal e v) w)"
    and "statics_ok (instance_update k (\<lambda>e. snd (lock e)) w)"
  using assms by (simp_all add: statics_ok_update locked_fixed)

lemma statics_ok_access:
  assumes "statics_ok w"
  shows "fst (Horizontal f w) < length (instances (snd (Horizontal f w)))
         \<and> isLocked (instances (snd (Horizontal f w)) ! fst (Horizontal f w)) = Some True
         \<and> isHorizontal (instances (snd (Horizontal f w)) ! fst (Horizontal f w))"
    and "fst (Vertical f w) < length (instances (snd (Vertical f w)))
         \<and> isLocked (instances (snd (Vertical f w)) ! fst (Vertical f w)) = Some True
         \<and> \<not> isHorizontal (instances (snd (Vertical f w)) ! fst (Vertical f w))"
  using assms
  by (auto simp: statics_ok_def Horizontal_result Vertical_result isLocked_def isHorizontal_def
           split: option.splits)

text \<open>
  C9. An accessor read again gives the same reference and changes nothing, also when
  the other accessor was read in between; once a static is set the accessor returns
  it. From statics that are \<open>statics_ok\<close> (the initial ones are, whatever the heap), the
  statics stay so under both accessors and under calls of the setter and of \<open>lock\<close> on
  any instance, and the instance an accessor returns is locked, with \<open>isHorizontal\<close> true
  for \<open>Horizontal\<close> and false for \<open>Vertical\<close>.
\<close>

theorem Horizontal_Vertical_singletons:
  "Horizontal f (snd (Horizontal f w)) = Horizontal f w
   \<and> Vertical f (snd (Vertical f w)) = Vertical f w
   \<and> fst (Horizontal f (snd (Vertical f (snd (Horizontal f w))))) = fst (Horizontal f w)
   \<and> fst (Vertical f (snd (Horizontal f (snd (Vertical f w))))) = fst (Vertical f w)
   \<and> (s_horizontal w = Some r \<longrightarrow> Horizontal f w = (r, w))
   \<and> (s_vertical w = Some r \<longrightarrow> Vertical f w = (r, w))
   \<and> statics_ok (statics_initial heap)
   \<and> (statics_ok w \<longrightarrow>
        statics_ok (snd (Horizontal f w)) \<and> statics_ok (snd (Vertical f w))
        \<and> statics_ok (instance_update k (\<lambda>e. set_isHorizontal e v) w)
        \<and> statics_ok (instance_update k (\<lambda>e. snd (lock e)) w)
        \<and> fst (Horizontal f w) < length (instances (snd (Horizontal f w)))
        \<and> isLocked (instances (snd (Horizontal f w)) ! fst (Horizontal f w)) = Some True
        \<and> isHorizontal (instances (snd (Horizontal f w)) ! fst (Horizontal f w))
        \<and> fst (Vertical f w) < length (instances (snd (Vertical f w)))
        \<and> isLocked (instances (snd (Vertical f w)) ! fst (Vertical f w)) = Some True
        \<and> \<not> isHorizontal (instances (snd (Vertical f w)) ! fst (Vertical f w)))"
proof -
  have 1: "fst (Horizontal f (snd (Vertical f (snd (Horizontal f w))))) = fst (Horizontal f w)"
    by (simp add: Horizontal_result Vertical_result split: option.splits)
  have 2: "fst (Vertical f (snd (Horizontal f (snd (Vertical f w))))) = fst (Vertical f w)"
    by (simp add: Horizontal_result Vertical_result split: option.splits)
  have 3: "s_horizontal w = Some r \<longrightarrow> Horizontal f w = (r, w)"
    "s_vertical w = Some r \<longrightarrow> Vertical f w = (r, w)"
    by (simp_all add: Horizontal_result Vertical_result)
  have 4: "statics_ok (statics_initial heap)"
    by (simp add: statics_ok_def statics_initial_def)
  show ?thesis
    using 1 2 3 4 Horizontal_again(2) [of f w] Vertical_again(2) [of f w]
      statics_ok_Horizontal [of w f] statics_ok_Vertical [of w f]
      statics_ok_client(1) [of w k v] statics_ok_client(2) [of w k] statics_ok_access [of w f]
    by blast
qed

theorem Horizontal_Vertical_singletons_witness:
  "fst (Horizontal 4 (statics_initial [])) = 0
   \<and> fst (Horizontal 4 (snd (Horizontal 4 (statics_initial [])))) = 0
   \<and> fst (Vertical 4 (snd (Horizontal 4 (statics_initial [])))) = 1
   \<and> fst (Horizontal 4 (snd (Vertical 4 (snd (Horizontal 4 (statics_initial [])))))) = 0
   \<and> statics_ok (snd (Vertical 4 (snd (Horizontal 4 (statics_initial [])))))
   \<and> isLocked (instances (snd (Horizontal 4 (statics_initial []))) ! 0) = Some True
   \<and> isHorizontal (instances (snd (Horizontal 4 (statics_initial []))) ! 0)
   \<and> \<not> isHorizontal (instances (snd (Vertical 4 (snd (Horizontal 4 (statics_initial [])))))
                        ! fst (Vertical 4 (snd (Horizontal 4 (statics_initial [])))))"
proof -
  have h: "Horizontal 4 (statics_initial [])
           = (0, \<lparr>instances = [\<lparr>layoutDirtyOnPropertyChangedMask = 4, f_isLocked = Some True,
                                 f_isHorizontal = True\<rparr>],
                  s_horizontal = Some 0, s_vertical = None\<rparr>)"
    by (simp add: Horizontal_result statics_initial_def)
  have ok0: "statics_ok (statics_initial [])"
    using Horizontal_Vertical_singletons [of 4 "statics_initial []" 0 "[]" 0 True] by blast
  have ok1: "statics_ok (snd (Horizontal 4 (statics_initial [])))"
    using Horizontal_Vertical_singletons [of 4 "statics_initial []" 0 "[]" 0 True] ok0 by blast
  from Horizontal_Vertical_singletons [of 4 "statics_initial []" 0 "[]" 0 True]
       Horizontal_Vertical_singletons [of 4 "snd (Horizontal 4 (statics_initial []))" 0 "[]" 0 True]
       ok0 ok1
  show ?thesis
    by (simp add: h Vertical_result)
qed

end
